theory Spec2Isabelle
  imports Complex_Main "HOL-Library.Word"
begin

section \<open>Strings\<close>

text \<open>
  A JavaScript string is a sequence of UTF-16 code units. A literal of the source is
  written \<open>lit ''...''\<close>; the two en dashes of the overview prompt are the code unit
  \<open>0x2013\<close>.
\<close>

type_synonym code_unit = "16 word"
type_synonym jsstring = "code_unit list"

definition lit :: "string \<Rightarrow> jsstring" where
  "lit cs = map of_char cs"

text \<open>
  \<open>String.prototype.trim\<close> removes the white space and line terminator code units of
  ECMAScript from both ends.
\<close>

definition is_ws :: "code_unit \<Rightarrow> bool" where
  "is_ws c \<longleftrightarrow>
     c \<in> {0x9, 0xA, 0xB, 0xC, 0xD, 0x20, 0xA0, 0x1680, 0x2028, 0x2029, 0x202F, 0x205F,
          0x3000, 0xFEFF}
     \<or> (0x2000 \<le> c \<and> c \<le> 0x200A)"

definition trim :: "jsstring \<Rightarrow> jsstring" where
  "trim s = rev (dropWhile is_ws (rev (dropWhile is_ws s)))"

text \<open>Truthiness of a value of type \<open>string | null\<close>: \<open>null\<close> and \<open>""\<close> are falsy.\<close>

fun truthy :: "jsstring option \<Rightarrow> bool" where
  "truthy None = False"
| "truthy (Some s) = (s \<noteq> [])"

section \<open>Backend client (page.tsx, callRAG)\<close>

datatype json =
    JNull | JBool bool | JNum real | JStr jsstring
  | JArr "json list" | JObj "(jsstring \<times> json) list"

record RAGResponse =
  answer :: jsstring
  chunks :: "json list"

text \<open>The two request bodies of the source: \<open>{question}\<close> and \<open>{question, file_name}\<close>.\<close>

record rag_body =
  question :: jsstring
  file_name :: "jsstring option"

datatype http_method = POST

record request =
  url :: jsstring
  http_method :: http_method
  content_type :: jsstring
  payload :: rag_body

text \<open>
  What \<open>fetch\<close> hands back. \<open>text_body\<close> is the result of \<open>resp.text()\<close> and
  \<open>json_body\<close> that of \<open>resp.json()\<close>; \<open>None\<close> stands for a rejected promise (the
  body cannot be read, or is not JSON). The source casts the parsed body to
  \<open>RAGResponse\<close> unchecked; a body that parses is taken to have that shape.
\<close>

record response =
  status :: nat
  text_body :: "jsstring option"
  json_body :: "RAGResponse option"

datatype fetch_outcome = FetchRejected | FetchResolved response

datatype error =
    FetchFailed
  | BodyReadFailed
  | RAGRequestFailed nat
  | JSONParseFailed

definition ok :: "response \<Rightarrow> bool" where
  "ok resp \<longleftrightarrow> 200 \<le> status resp \<and> status resp \<le> 299"

definition default_backend :: jsstring where
  "default_backend = lit ''https://fictional-guacamole-wr974jjpwp66h9wqw-8000.app.github.dev''"

text \<open>
  \<open>BACKEND_URL\<close>: the value of \<open>NEXT_PUBLIC_BACKEND_URL\<close> when it is set and not empty,
  the fixed address otherwise.
\<close>

definition BACKEND_URL :: "jsstring option \<Rightarrow> jsstring" where
  "BACKEND_URL env = (if truthy env then the env else default_backend)"

text \<open>
  \<open>callRAG\<close> up to \<open>await fetch(...)\<close>: the one request it issues. Its \<open>console\<close>
  calls are left out.
\<close>

definition callRAG_request :: "jsstring option \<Rightarrow> jsstring \<Rightarrow> rag_body \<Rightarrow> request" where
  "callRAG_request env path body =
     \<lparr>url = BACKEND_URL env @ path, http_method = POST,
      content_type = lit ''application/json'', payload = body\<rparr>"

text \<open>\<open>callRAG\<close> after the fetch has settled: the value it returns or the error it throws.\<close>

definition callRAG_resume :: "fetch_outcome \<Rightarrow> error + RAGResponse" where
  "callRAG_resume out =
     (case out of
        FetchRejected \<Rightarrow> Inl FetchFailed
      | FetchResolved resp \<Rightarrow>
          if \<not> ok resp then
            (case text_body resp of
               None \<Rightarrow> Inl BodyReadFailed
             | Some t \<Rightarrow> Inl (RAGRequestFailed (status resp)))
          else
            (case json_body resp of
               None \<Rightarrow> Inl JSONParseFailed
             | Some r \<Rightarrow> Inr r))"

text \<open>
  The network as \<open>callRAG\<close> sees it when run to completion: the requests sent so far
  and the outcomes the successive fetches will have. A fetch with no outcome left is
  rejected (the network is unreachable).
\<close>

record network =
  sent :: "request list"
  replies :: "fetch_outcome list"

definition fetch :: "request \<Rightarrow> network \<Rightarrow> fetch_outcome \<times> network" where
  "fetch req net =
     (case replies net of
        [] \<Rightarrow> (FetchRejected, net\<lparr>sent := sent net @ [req]\<rparr>)
      | r # rs \<Rightarrow> (r, net\<lparr>sent := sent net @ [req], replies := rs\<rparr>))"

definition callRAG ::
  "jsstring option \<Rightarrow> jsstring \<Rightarrow> rag_body \<Rightarrow> network \<Rightarrow> (error + RAGResponse) \<times> network" where
  "callRAG env path body net =
     (let (out, net') = fetch (callRAG_request env path body) net
      in (callRAG_resume out, net'))"

section \<open>Page controller (page.tsx, HomePage)\<close>

datatype role = User | Assistant

record ChatMessage =
  role :: role
  content :: jsstring

record page_state =
  overviewText :: jsstring
  overviewLoading :: bool
  overviewError :: "jsstring option"
  currentFileName :: "jsstring option"
  selectedText :: "jsstring option"
  highlightMessages :: "ChatMessage list"
  highlightInput :: jsstring

definition initial_page :: page_state where
  "initial_page =
     \<lparr>overviewText = [], overviewLoading = False, overviewError = None,
      currentFileName = None, selectedText = None, highlightMessages = [],
      highlightInput = []\<rparr>"

text \<open>The arguments of one \<open>callRAG(path, body)\<close> call.\<close>

record rag_call =
  path :: jsstring
  body :: rag_body

text \<open>
  Each asynchronous handler is cut at its \<open>await callRAG(...)\<close>: the part before it
  runs with the event and yields the new state and the call; the part after it
  (\<open>_resume\<close>) runs when the call has settled, on the state of that moment, with the
  value returned (\<open>Inr\<close>) or the error thrown (\<open>Inl\<close>). The \<open>console\<close> calls of the
  page are left out.
\<close>

definition overview_question :: "jsstring \<Rightarrow> jsstring" where
  \<open>overview_question fileName = trim (
     lit ''\<newline>'' @
     lit ''The user has uploaded a U.S. health-insurance related PDF named "'' @
     fileName @
     lit ''".\<newline>'' @
     lit ''\<newline>'' @
     lit ''Based on the retrieved chunks from this PDF and any closely related\<newline>'' @
     lit ''insurance information in the knowledge base, write a concise summary.\<newline>'' @
     lit ''\<newline>'' @
     lit ''In 5'' @
     [0x2013] @
     lit ''7 short sentences:\<newline>'' @
     lit ''1. Explain what kind of document this is and who typically provides it (for example, an employer, insurance company, or government agency).\<newline>'' @
     lit ''2. Describe the main purpose of this document for the person reading it.\<newline>'' @
     lit ''3. Highlight 3'' @
     [0x2013] @
     lit ''4 key things the reader should pay attention to (such as who is covered, premium costs, deductibles/copays, important deadlines, and what to do if something looks wrong).\<newline>'' @
     lit ''\<newline>'' @
     lit ''Use simple language. Bold important terms with **this style**.\<newline>'')\<close>

definition overview_fallback :: jsstring where
  "overview_fallback = lit ''Sorry, I could not load the document overview from the server.''"

definition fetchOverviewForFile :: "jsstring \<Rightarrow> page_state \<Rightarrow> page_state \<times> rag_call" where
  "fetchOverviewForFile fileName s =
     (s\<lparr>overviewLoading := True, overviewError := None, overviewText := []\<rparr>,
      \<lparr>path = lit ''/api/rag/overview'',
       body = \<lparr>question = overview_question fileName, file_name = Some fileName\<rparr>\<rparr>)"

definition fetchOverviewForFile_resume :: "error + RAGResponse \<Rightarrow> page_state \<Rightarrow> page_state" where
  "fetchOverviewForFile_resume res s =
     (case res of
        Inr r \<Rightarrow> s\<lparr>overviewText := answer r\<rparr>
      | Inl err \<Rightarrow> s\<lparr>overviewError := Some overview_fallback\<rparr>)
     \<lparr>overviewLoading := False\<rparr>"

definition handleFileLoaded :: "jsstring \<Rightarrow> page_state \<Rightarrow> page_state \<times> rag_call" where
  "handleFileLoaded fileName s =
     fetchOverviewForFile fileName
       (s\<lparr>currentFileName := Some fileName, selectedText := None,
          highlightMessages := [], highlightInput := []\<rparr>)"

definition selection_question :: "jsstring \<Rightarrow> jsstring" where
  \<open>selection_question text = trim (
     lit ''\<newline>'' @
     lit ''You are explaining one short sentence from a U.S. health insurance form\<newline>'' @
     lit ''to a normal person with no insurance background.\<newline>'' @
     lit ''\<newline>'' @
     lit ''Highlighted text:\<newline>'' @
     lit ''"'' @
     text @
     lit ''"\<newline>'' @
     lit ''\<newline>'' @
     lit ''In **no more than 3 short sentences**, explain:\<newline>'' @
     lit ''- What this part is saying in simple words,\<newline>'' @
     lit ''- What it means for the person reading or filling out the form,\<newline>'' @
     lit ''- If needed, mention **one** thing they should be careful about (such as deadlines or coverage limits).\<newline>'' @
     lit ''\<newline>'' @
     lit ''Use clear language and bold important terms with **this style**.\<newline>'')\<close>

definition selection_apology :: jsstring where
  "selection_apology =
     lit ''Sorry, I could not get an explanation from the server. Please try again later.''"

definition handleSelection :: "jsstring \<Rightarrow> page_state \<Rightarrow> page_state \<times> rag_call" where
  "handleSelection text s =
     (s\<lparr>selectedText := Some text, highlightMessages := [], highlightInput := []\<rparr>,
      \<lparr>path = lit ''/api/rag/highlight'',
       body = \<lparr>question = selection_question text, file_name = None\<rparr>\<rparr>)"

definition handleSelection_resume :: "error + RAGResponse \<Rightarrow> page_state \<Rightarrow> page_state" where
  "handleSelection_resume res s =
     (case res of
        Inr r \<Rightarrow> s\<lparr>highlightMessages := [\<lparr>role = Assistant, content = answer r\<rparr>]\<rparr>
      | Inl err \<Rightarrow>
          s\<lparr>highlightMessages := [\<lparr>role = Assistant, content = selection_apology\<rparr>]\<rparr>)"

definition handleClearSelection :: "page_state \<Rightarrow> page_state" where
  "handleClearSelection s =
     s\<lparr>selectedText := None, highlightMessages := [], highlightInput := []\<rparr>"

definition followup_question :: "jsstring \<Rightarrow> jsstring \<Rightarrow> jsstring" where
  \<open>followup_question selected trimmed = trim (
     lit ''\<newline>'' @
     lit ''We are discussing this highlighted text from a U.S. health insurance form:\<newline>'' @
     lit ''"'' @
     selected @
     lit ''"\<newline>'' @
     lit ''\<newline>'' @
     lit ''The user now asks:\<newline>'' @
     lit ''"'' @
     trimmed @
     lit ''"\<newline>'' @
     lit ''\<newline>'' @
     lit ''Answer in **no more than 3 short sentences**, focusing only on what the user really needs to know.\<newline>'' @
     lit ''Use simple language and bold important terms with **this style**.\<newline>'')\<close>

definition followup_apology :: jsstring where
  "followup_apology = lit ''Sorry, I could not get a follow-up answer from the server.''"

text \<open>
  \<open>handleHighlightSubmit\<close> returns early, with no call, when the trimmed input is
  empty or the selected text is falsy. \<open>e.preventDefault()\<close> acts on the browser's
  form submission only and is left out.
\<close>

definition handleHighlightSubmit :: "page_state \<Rightarrow> page_state \<times> rag_call option" where
  "handleHighlightSubmit s =
     (let trimmed = trim (highlightInput s) in
      if trimmed = [] \<or> \<not> truthy (selectedText s) then (s, None)
      else
        (s\<lparr>highlightMessages := highlightMessages s @ [\<lparr>role = User, content = trimmed\<rparr>],
           highlightInput := []\<rparr>,
         Some \<lparr>path = lit ''/api/rag/highlight'',
               body = \<lparr>question = followup_question (the (selectedText s)) trimmed,
                       file_name = None\<rparr>\<rparr>))"

definition handleHighlightSubmit_resume :: "error + RAGResponse \<Rightarrow> page_state \<Rightarrow> page_state" where
  "handleHighlightSubmit_resume res s =
     (case res of
        Inr r \<Rightarrow>
          s\<lparr>highlightMessages := highlightMessages s @ [\<lparr>role = Assistant, content = answer r\<rparr>]\<rparr>
      | Inl err \<Rightarrow>
          s\<lparr>highlightMessages :=
              highlightMessages s @ [\<lparr>role = Assistant, content = followup_apology\<rparr>]\<rparr>)"

text \<open>The \<open>onChange\<close> of the follow-up input: \<open>setHighlightInput(e.target.value)\<close>.\<close>

definition handleInputChange :: "jsstring \<Rightarrow> page_state \<Rightarrow> page_state" where
  "handleInputChange v s = s\<lparr>highlightInput := v\<rparr>"

section \<open>Document viewer (PDFInner.tsx)\<close>

text \<open>
  Of the chosen \<open>File\<close> the viewer reads the name only. An object URL is named by the
  number of the \<open>createObjectURL\<close> call that made it, so that every call returns a URL
  not seen before, as the browser's do; such a URL is never an empty string, so
  \<open>if (fileUrl)\<close> tests for \<open>null\<close>. The store keeps the URLs that are alive (created
  and not yet revoked) and the calls made, in order.
\<close>

record pdf_file =
  name :: jsstring

type_synonym object_url = nat

datatype url_op = Created object_url | Revoked object_url

record blob_store =
  next_url :: object_url
  alive :: "object_url set"
  url_ops :: "url_op list"

definition createObjectURL :: "blob_store \<Rightarrow> object_url \<times> blob_store" where
  "createObjectURL b =
     (next_url b,
      \<lparr>next_url = Suc (next_url b), alive = insert (next_url b) (alive b),
       url_ops = url_ops b @ [Created (next_url b)]\<rparr>)"

definition revokeObjectURL :: "object_url \<Rightarrow> blob_store \<Rightarrow> blob_store" where
  "revokeObjectURL u b = b\<lparr>alive := alive b - {u}, url_ops := url_ops b @ [Revoked u]\<rparr>"

text \<open>Pixel quantities are JavaScript numbers; their rounding is not modelled.\<close>

record HighlightRect =
  hl_top :: real
  hl_left :: real
  hl_width :: real
  hl_height :: real

record dom_rect =
  dom_top :: real
  dom_left :: real
  dom_width :: real
  dom_height :: real

record viewer_state =
  fileObj :: "pdf_file option"
  fileUrl :: "object_url option"
  numPages :: nat
  highlightRect :: "HighlightRect option"

definition initial_viewer :: viewer_state where
  "initial_viewer = \<lparr>fileObj = None, fileUrl = None, numPages = 1, highlightRect = None\<rparr>"

text \<open>
  What a handler of the viewer does besides setting its own state, in the order of the
  calls: the three callbacks of its props, \<open>removeAllRanges\<close> on the browser's
  selection, and \<open>console.error\<close>.
\<close>

datatype effect =
    Call_onSelection jsstring
  | Call_onClearSelection
  | Call_onFileLoaded jsstring
  | RemoveAllRanges
  | ConsoleError_PDFLoad

text \<open>
  \<open>handleFileChange\<close>. The first argument says whether the optional prop
  \<open>onFileLoaded\<close> was passed; the second is \<open>e.target.files?.[0] ?? null\<close>.
  \<open>revoke_previous\<close> is its \<open>if (fileUrl) URL.revokeObjectURL(fileUrl)\<close>, on the
  \<open>fileUrl\<close> of the state the handler runs on.
\<close>

definition revoke_previous :: "object_url option \<Rightarrow> blob_store \<Rightarrow> blob_store" where
  "revoke_previous prev b = (case prev of Some u \<Rightarrow> revokeObjectURL u b | None \<Rightarrow> b)"

definition handleFileChange ::
  "bool \<Rightarrow> pdf_file option \<Rightarrow> viewer_state \<Rightarrow> blob_store
     \<Rightarrow> viewer_state \<times> blob_store \<times> effect list" where
  "handleFileChange onFileLoaded_given picked v b =
     (case picked of
        None \<Rightarrow> (v, b, [])
      | Some file \<Rightarrow>
          (let b1 = revoke_previous (fileUrl v) b;
               (u, b2) = createObjectURL b1
           in (v\<lparr>fileObj := Some file, fileUrl := Some u, highlightRect := None\<rparr>,
               b2,
               Call_onClearSelection #
                 (if onFileLoaded_given then [Call_onFileLoaded (name file)] else []))))"

text \<open>
  The cleanup of the effect that depends on \<open>fileUrl\<close>: React runs it, with the
  \<open>fileUrl\<close> of the render that set the effect up, after a render in which \<open>fileUrl\<close>
  has changed and when the component unmounts.
\<close>

definition fileUrl_cleanup :: "object_url option \<Rightarrow> blob_store \<Rightarrow> blob_store" where
  "fileUrl_cleanup rendered b =
     (case rendered of Some u \<Rightarrow> revokeObjectURL u b | None \<Rightarrow> b)"

definition onDocumentLoadSuccess :: "nat \<Rightarrow> viewer_state \<Rightarrow> viewer_state" where
  "onDocumentLoadSuccess n v = v\<lparr>numPages := n\<rparr>"

definition onDocumentLoadError :: "viewer_state \<Rightarrow> viewer_state \<times> effect list" where
  "onDocumentLoadError v = (v, [ConsoleError_PDFLoad])"

text \<open>
  What \<open>handleMouseUp\<close> reads from the browser: \<open>window.getSelection()\<close> (\<open>None\<close> for
  \<open>null\<close>) with its \<open>isCollapsed\<close>, \<open>toString()\<close> and the bounding rectangle of its
  first range, and \<open>containerRef.current\<close> (\<open>None\<close> for \<open>null\<close>) with its bounding
  rectangle and scroll offsets.
\<close>

record selection =
  isCollapsed :: bool
  sel_toString :: jsstring
  range_rect :: dom_rect

record container =
  client_rect :: dom_rect
  scrollTop :: real
  scrollLeft :: real

definition handleMouseUp ::
  "selection option \<Rightarrow> container option \<Rightarrow> viewer_state \<Rightarrow> viewer_state \<times> effect list" where
  "handleMouseUp sel cont v =
     (case sel of
        None \<Rightarrow> (v, [])
      | Some selection \<Rightarrow>
          if isCollapsed selection then (v, [])
          else
            (let text = trim (sel_toString selection) in
             if text = [] then (v, [])
             else
               (case cont of
                  None \<Rightarrow> (v, [])
                | Some c \<Rightarrow>
                    (v\<lparr>highlightRect := Some
                         \<lparr>hl_top = dom_top (range_rect selection) - dom_top (client_rect c)
                                     + scrollTop c,
                          hl_left = dom_left (range_rect selection) - dom_left (client_rect c)
                                      + scrollLeft c,
                          hl_width = dom_width (range_rect selection),
                          hl_height = dom_height (range_rect selection)\<rparr>\<rparr>,
                     [Call_onSelection text]))))"

text \<open>
  \<open>handleMouseDown\<close>: whether \<open>containerRef.current\<close> is set, whether the target of the
  event is the container itself, and whether \<open>window.getSelection()\<close> is not \<open>null\<close>.
\<close>

record pointer_press =
  container_mounted :: bool
  target_is_container :: bool
  selection_available :: bool

definition handleMouseDown :: "pointer_press \<Rightarrow> viewer_state \<Rightarrow> viewer_state \<times> effect list" where
  "handleMouseDown e v =
     (if \<not> container_mounted e then (v, [])
      else if target_is_container e then
        (v\<lparr>highlightRect := None\<rparr>,
         Call_onClearSelection # (if selection_available e then [RemoveAllRanges] else []))
      else (v, []))"

section \<open>The screen as a whole\<close>

text \<open>
  The page renders the viewer with its three handlers as props, so a callback of the
  viewer runs the page's handler inside the same event. The calls to the backend that
  have not settled are kept in issue order, each with the continuation that waits for
  it; \<open>requests\<close> are the fetches issued so far; \<open>trace\<close> the effects of the viewer
  so far. A handler runs on the state left by the events before it.
\<close>

datatype pending = OverviewCall | SelectionCall | FollowupCall

record system =
  page :: page_state
  viewer :: viewer_state
  blobs :: blob_store
  inflight :: "pending list"
  requests :: "request list"
  trace :: "effect list"

definition initial_system :: system where
  "initial_system =
     \<lparr>page = initial_page, viewer = initial_viewer,
      blobs = \<lparr>next_url = 0, alive = {}, url_ops = []\<rparr>,
      inflight = [], requests = [], trace = []\<rparr>"

definition issue :: "jsstring option \<Rightarrow> pending \<Rightarrow> rag_call \<Rightarrow> system \<Rightarrow> system" where
  "issue env k c sys =
     sys\<lparr>inflight := inflight sys @ [k],
         requests := requests sys @ [callRAG_request env (path c) (body c)]\<rparr>"

fun deliver :: "jsstring option \<Rightarrow> effect \<Rightarrow> system \<Rightarrow> system" where
  "deliver env (Call_onSelection text) sys =
     (let (p, c) = handleSelection text (page sys)
      in issue env SelectionCall c (sys\<lparr>page := p\<rparr>))"
| "deliver env Call_onClearSelection sys = sys\<lparr>page := handleClearSelection (page sys)\<rparr>"
| "deliver env (Call_onFileLoaded fileName) sys =
     (let (p, c) = handleFileLoaded fileName (page sys)
      in issue env OverviewCall c (sys\<lparr>page := p\<rparr>))"
| "deliver env RemoveAllRanges sys = sys"
| "deliver env ConsoleError_PDFLoad sys = sys"

fun deliver_all :: "jsstring option \<Rightarrow> effect list \<Rightarrow> system \<Rightarrow> system" where
  "deliver_all env [] sys = sys"
| "deliver_all env (e # es) sys =
     deliver_all env es (deliver env e (sys\<lparr>trace := trace sys @ [e]\<rparr>))"

fun continuation :: "pending \<Rightarrow> error + RAGResponse \<Rightarrow> page_state \<Rightarrow> page_state" where
  "continuation OverviewCall = fetchOverviewForFile_resume"
| "continuation SelectionCall = handleSelection_resume"
| "continuation FollowupCall = handleHighlightSubmit_resume"

datatype event =
    FileChange "pdf_file option"
  | DocumentLoadSuccess nat
  | DocumentLoadError
  | MouseUp "selection option" "container option"
  | MouseDown pointer_press
  | InputChange jsstring
  | Submit
  | Settle nat fetch_outcome

text \<open>
  One event. \<open>Settle i out\<close>: the fetch of the \<open>i\<close>-th call in flight settles with
  \<open>out\<close>, and the handler waiting for it resumes. After \<open>handleFileChange\<close> has set a
  new \<open>fileUrl\<close>, the cleanup of the effect runs for the one rendered before.
\<close>

fun step :: "jsstring option \<Rightarrow> event \<Rightarrow> system \<Rightarrow> system" where
  "step env (FileChange picked) sys =
     (let (v, b, effs) = handleFileChange True picked (viewer sys) (blobs sys);
          b' = (if fileUrl v \<noteq> fileUrl (viewer sys)
                then fileUrl_cleanup (fileUrl (viewer sys)) b else b)
      in deliver_all env effs (sys\<lparr>viewer := v, blobs := b'\<rparr>))"
| "step env (DocumentLoadSuccess n) sys = sys\<lparr>viewer := onDocumentLoadSuccess n (viewer sys)\<rparr>"
| "step env DocumentLoadError sys =
     (let (v, effs) = onDocumentLoadError (viewer sys)
      in deliver_all env effs (sys\<lparr>viewer := v\<rparr>))"
| "step env (MouseUp sel cont) sys =
     (let (v, effs) = handleMouseUp sel cont (viewer sys)
      in deliver_all env effs (sys\<lparr>viewer := v\<rparr>))"
| "step env (MouseDown e) sys =
     (let (v, effs) = handleMouseDown e (viewer sys)
      in deliver_all env effs (sys\<lparr>viewer := v\<rparr>))"
| "step env (InputChange text) sys = sys\<lparr>page := handleInputChange text (page sys)\<rparr>"
| "step env Submit sys =
     (case handleHighlightSubmit (page sys) of
        (p, None) \<Rightarrow> sys\<lparr>page := p\<rparr>
      | (p, Some c) \<Rightarrow> issue env FollowupCall c (sys\<lparr>page := p\<rparr>))"
| "step env (Settle i out) sys =
     (if i < length (inflight sys) then
        sys\<lparr>page := continuation (inflight sys ! i) (callRAG_resume out) (page sys),
            inflight := take i (inflight sys) @ drop (Suc i) (inflight sys)\<rparr>
      else sys)"

fun run :: "jsstring option \<Rightarrow> event list \<Rightarrow> system \<Rightarrow> system" where
  "run env [] sys = sys"
| "run env (e # es) sys = run env es (step env e sys)"

section \<open>Constants of the statements\<close>

text \<open>
  The fixed text of the highlight prompt around the selected text, and of the follow-up
  prompt around the selected text and the question, as they are after \<open>trim()\<close>.
\<close>

definition selection_question_head :: jsstring where
  \<open>selection_question_head =
     lit ''You are explaining one short sentence from a U.S. health insurance form\<newline>'' @
     lit ''to a normal person with no insurance background.\<newline>'' @
     lit ''\<newline>'' @
     lit ''Highlighted text:\<newline>'' @
     lit ''"''\<close>

definition selection_question_tail :: jsstring where
  \<open>selection_question_tail =
     lit ''"\<newline>'' @
     lit ''\<newline>'' @
     lit ''In **no more than 3 short sentences**, explain:\<newline>'' @
     lit ''- What this part is saying in simple words,\<newline>'' @
     lit ''- What it means for the person reading or filling out the form,\<newline>'' @
     lit ''- If needed, mention **one** thing they should be careful about (such as deadlines or coverage limits).\<newline>'' @
     lit ''\<newline>'' @
     lit ''Use clear language and bold important terms with **this style**.''\<close>

definition followup_question_head :: jsstring where
  \<open>followup_question_head =
     lit ''We are discussing this highlighted text from a U.S. health insurance form:\<newline>'' @
     lit ''"''\<close>

definition followup_question_mid :: jsstring where
  \<open>followup_question_mid =
     lit ''"\<newline>'' @
     lit ''\<newline>'' @
     lit ''The user now asks:\<newline>'' @
     lit ''"''\<close>

definition followup_question_tail :: jsstring where
  \<open>followup_question_tail =
     lit ''"\<newline>'' @
     lit ''\<newline>'' @
     lit ''Answer in **no more than 3 short sentences**, focusing only on what the user really needs to know.\<newline>'' @
     lit ''Use simple language and bold important terms with **this style**.''\<close>

text \<open>The message an assistant reply puts in the log: the answer, or the apology.\<close>

definition selection_reply :: "error + RAGResponse \<Rightarrow> ChatMessage" where
  "selection_reply res =
     \<lparr>role = Assistant,
      content = (case res of Inr r \<Rightarrow> answer r | Inl err \<Rightarrow> selection_apology)\<rparr>"

definition followup_reply :: "error + RAGResponse \<Rightarrow> ChatMessage" where
  "followup_reply res =
     \<lparr>role = Assistant,
      content = (case res of Inr r \<Rightarrow> answer r | Inl err \<Rightarrow> followup_apology)\<rparr>"

text \<open>
  What holds of the page after every sequence of events: a selected text is not the
  empty string, and while the overview is loading there is neither an error nor a text.
\<close>

definition page_inv :: "page_state \<Rightarrow> bool" where
  "page_inv p \<longleftrightarrow>
     selectedText p \<noteq> Some [] \<and>
     (if overviewLoading p then overviewError p = None \<and> overviewText p = [] else True)"

text \<open>What holds of the object URLs: the one alive, if any, is the viewer's \<open>fileUrl\<close>,
  and it was made by an earlier call.\<close>

definition url_inv :: "system \<Rightarrow> bool" where
  "url_inv sys \<longleftrightarrow>
     (case fileUrl (viewer sys) of
        None \<Rightarrow> alive (blobs sys) = {}
      | Some u \<Rightarrow> alive (blobs sys) = {u} \<and> u < next_url (blobs sys))"

text \<open>
  The viewer calls \<open>onSelection\<close> with a text that is not empty; this is what the
  page's invariant needs of the effects of a handler.
\<close>

definition effect_ok :: "effect \<Rightarrow> bool" where
  "effect_ok e = (case e of Call_onSelection text \<Rightarrow> text \<noteq> [] | _ \<Rightarrow> True)"

section \<open>Sample inputs\<close>

definition policy_pdf :: pdf_file where
  "policy_pdf = \<lparr>name = lit ''policy.pdf''\<rparr>"

definition summary_reply :: fetch_outcome where
  "summary_reply = FetchResolved
     \<lparr>status = 200, text_body = None,
      json_body = Some \<lparr>answer = lit ''This is a Summary of Benefits...'', chunks = []\<rparr>\<rparr>"

definition policy_loading :: system where
  "policy_loading = run None [FileChange (Some policy_pdf)] initial_system"

definition claim_form_pdf :: pdf_file where
  "claim_form_pdf = \<lparr>name = lit ''claim-form.pdf''\<rparr>"

definition explanation_reply :: fetch_outcome where
  "explanation_reply = FetchResolved
     \<lparr>status = 200, text_body = None,
      json_body = Some \<lparr>answer = lit ''You pay **20%** of the cost.'', chunks = []\<rparr>\<rparr>"

definition error_500 :: fetch_outcome where
  "error_500 = FetchResolved
     \<lparr>status = 500, text_body = Some (lit ''Internal Server Error''), json_body = None\<rparr>"

definition coinsurance_selection :: selection where
  "coinsurance_selection =
     \<lparr>isCollapsed = False, sel_toString = lit ''  Coinsurance: 20% after deductible '',
      range_rect = \<lparr>dom_top = 120, dom_left = 40, dom_width = 200, dom_height = 16\<rparr>\<rparr>"

definition blank_selection :: selection where
  "blank_selection =
     \<lparr>isCollapsed = False, sel_toString = lit ''  '',
      range_rect = \<lparr>dom_top = 120, dom_left = 40, dom_width = 8, dom_height = 16\<rparr>\<rparr>"

definition viewer_container :: container where
  "viewer_container =
     \<lparr>client_rect = \<lparr>dom_top = 100, dom_left = 20, dom_width = 700, dom_height = 900\<rparr>,
      scrollTop = 50, scrollLeft = 0\<rparr>"

definition container_press :: pointer_press where
  "container_press =
     \<lparr>container_mounted = True, target_is_container = True, selection_available = True\<rparr>"

definition highlighted :: viewer_state where
  "highlighted =
     \<lparr>fileObj = Some policy_pdf, fileUrl = Some 0, numPages = 3,
      highlightRect = Some \<lparr>hl_top = 70, hl_left = 20, hl_width = 200, hl_height = 16\<rparr>\<rparr>"

definition one_url :: blob_store where
  "one_url = \<lparr>next_url = 1, alive = {0}, url_ops = [Created 0]\<rparr>"

definition explaining :: system where
  "explaining =
     run None [FileChange (Some policy_pdf), Settle 0 summary_reply,
               MouseUp (Some coinsurance_selection) (Some viewer_container)] initial_system"

definition asking :: system where
  "asking =
     run None [FileChange (Some policy_pdf), Settle 0 summary_reply,
               MouseUp (Some coinsurance_selection) (Some viewer_container),
               Settle 0 explanation_reply,
               InputChange (lit '' Is that a lot? '')] initial_system"

definition asking_early :: system where
  "asking_early =
     run None [MouseUp (Some coinsurance_selection) (Some viewer_container),
               InputChange (lit '' Is that a lot? '')] initial_system"

definition two_uploads :: system where
  "two_uploads =
     run None [FileChange (Some policy_pdf), FileChange (Some claim_form_pdf)] initial_system"

section \<open>Prompts\<close>

lemma trim_wrapped:
  assumes "is_ws a" "is_ws b" "xs \<noteq> []" "\<not> is_ws (hd xs)" "\<not> is_ws (last xs)"
  shows "trim (a # xs @ [b]) = xs"
proof -
  from assms(3,4) have "dropWhile is_ws (xs @ [b]) = xs @ [b]"
    by (cases xs) auto
  moreover from assms(3,5) have "dropWhile is_ws (rev xs) = rev xs"
    by (cases xs rule: rev_cases) auto
  ultimately show ?thesis
    using assms(1,2) by (simp add: trim_def)
qed

lemma hd_lit_append: "hd (lit (c # cs) @ ys) = of_char c"
  by (simp add: lit_def)

lemma lit_nonempty: "lit (c # cs) \<noteq> []"
  by (simp add: lit_def)

lemma newline_ws: "is_ws 0xA"
  by (simp add: is_ws_def)

lemma selection_question_embeds:
  "selection_question text = selection_question_head @ text @ selection_question_tail"
proof -
  have nl: "lit ''\<newline>'' = [0xA]"
    by (simp add: lit_def)
  have e: "lit ''Use clear language and bold important terms with **this style**.\<newline>''
     = lit ''Use clear language and bold important terms with **this style**.'' @ [0xA]"
    by (simp add: lit_def)
  let ?xs = "selection_question_head @ text @ selection_question_tail"
  have arg: "selection_question text = trim (0xA # ?xs @ [0xA])"
    unfolding selection_question_def selection_question_head_def selection_question_tail_def e
    by (simp add: nl)
  have h: "\<not> is_ws (hd ?xs)"
    unfolding selection_question_head_def by (simp add: hd_lit_append is_ws_def)
  have l: "\<not> is_ws (last ?xs)"
    unfolding selection_question_tail_def by (simp add: lit_def is_ws_def)
  have n: "?xs \<noteq> []"
    unfolding selection_question_head_def by (simp add: lit_nonempty)
  show ?thesis
    unfolding arg by (rule trim_wrapped [OF newline_ws newline_ws n h l])
qed

section \<open>One event\<close>

lemmas page_handlers =
  handleClearSelection_def handleFileLoaded_def fetchOverviewForFile_def
  handleSelection_def handleInputChange_def

lemma page_FileChange:
  "page (step env (FileChange (Some f)) sys) =
     \<lparr>overviewText = [], overviewLoading = True, overviewError = None,
      currentFileName = Some (name f), selectedText = None, highlightMessages = [],
      highlightInput = []\<rparr>"
  by (simp add: handleFileChange_def createObjectURL_def Let_def issue_def page_handlers)

lemma inflight_FileChange:
  "inflight (step env (FileChange (Some f)) sys) = inflight sys @ [OverviewCall]"
  by (simp add: handleFileChange_def createObjectURL_def Let_def issue_def page_handlers)

lemma requests_FileChange:
  "requests (step env (FileChange (Some f)) sys) =
     requests sys @ [callRAG_request env (lit ''/api/rag/overview'')
        \<lparr>question = overview_question (name f), file_name = Some (name f)\<rparr>]"
  by (simp add: handleFileChange_def createObjectURL_def Let_def issue_def page_handlers)

lemma trace_FileChange:
  "trace (step env (FileChange (Some f)) sys) =
     trace sys @ [Call_onClearSelection, Call_onFileLoaded (name f)]"
  by (simp add: handleFileChange_def createObjectURL_def Let_def issue_def page_handlers)

lemma viewer_FileChange:
  "viewer (step env (FileChange (Some f)) sys) =
     (viewer sys)\<lparr>fileObj := Some f, fileUrl := Some (next_url (blobs sys)), highlightRect := None\<rparr>"
  by (simp add: handleFileChange_def createObjectURL_def Let_def issue_def page_handlers
      revoke_previous_def revokeObjectURL_def split: option.splits)

lemma step_FileChange_None: "step env (FileChange None) sys = sys"
  by (simp add: handleFileChange_def)

section \<open>Invariants\<close>

lemma trace_deliver_all: "trace (deliver_all env effs sys) = trace sys @ effs"
proof (induction effs arbitrary: sys)
  case Nil
  show ?case by simp
next
  case (Cons e es)
  have "trace (deliver env e s) = trace s" for s
    by (cases e) (simp_all add: issue_def split_def Let_def)
  with Cons show ?case by simp
qed

lemma viewer_deliver_all: "viewer (deliver_all env effs sys) = viewer sys"
proof (induction effs arbitrary: sys)
  case Nil
  show ?case by simp
next
  case (Cons e es)
  have "viewer (deliver env e s) = viewer s" for s
    by (cases e) (simp_all add: issue_def split_def Let_def)
  with Cons show ?case by simp
qed

lemma blobs_deliver_all: "blobs (deliver_all env effs sys) = blobs sys"
proof (induction effs arbitrary: sys)
  case Nil
  show ?case by simp
next
  case (Cons e es)
  have "blobs (deliver env e s) = blobs s" for s
    by (cases e) (simp_all add: issue_def split_def Let_def)
  with Cons show ?case by simp
qed

subsection \<open>The page\<close>

lemma page_inv_initial: "page_inv initial_page"
  by (simp add: page_inv_def initial_page_def)

lemma page_inv_handleClearSelection: "page_inv p \<Longrightarrow> page_inv (handleClearSelection p)"
  by (simp add: page_inv_def handleClearSelection_def)

lemma page_inv_handleFileLoaded: "page_inv (fst (handleFileLoaded n p))"
  by (simp add: page_inv_def handleFileLoaded_def fetchOverviewForFile_def)

lemma page_inv_handleSelection:
  "page_inv p \<Longrightarrow> text \<noteq> [] \<Longrightarrow> page_inv (fst (handleSelection text p))"
  by (simp add: page_inv_def handleSelection_def)

lemma page_inv_handleInputChange: "page_inv p \<Longrightarrow> page_inv (handleInputChange v p)"
  by (simp add: page_inv_def handleInputChange_def)

lemma page_inv_handleHighlightSubmit: "page_inv p \<Longrightarrow> page_inv (fst (handleHighlightSubmit p))"
  by (simp add: page_inv_def handleHighlightSubmit_def Let_def)

lemma page_inv_continuation: "page_inv p \<Longrightarrow> page_inv (continuation k res p)"
  by (cases k; cases res)
     (simp_all add: page_inv_def fetchOverviewForFile_resume_def handleSelection_resume_def
        handleHighlightSubmit_resume_def)

lemma page_inv_deliver:
  "page_inv (page sys) \<Longrightarrow> effect_ok e \<Longrightarrow> page_inv (page (deliver env e sys))"
  using page_inv_handleFileLoaded page_inv_handleSelection
  by (cases e)
     (simp_all add: effect_ok_def issue_def split_def Let_def page_inv_handleClearSelection)

lemma page_inv_deliver_all:
  "page_inv (page sys) \<Longrightarrow> list_all effect_ok effs \<Longrightarrow> page_inv (page (deliver_all env effs sys))"
proof (induction effs arbitrary: sys)
  case Nil
  then show ?case by simp
next
  case (Cons e es)
  from Cons.prems have "page_inv (page (deliver env e (sys\<lparr>trace := trace sys @ [e]\<rparr>)))"
    by (intro page_inv_deliver) simp_all
  with Cons show ?case by simp
qed

lemma effects_handleFileChange: "list_all effect_ok (snd (snd (handleFileChange g picked v b)))"
  by (simp add: handleFileChange_def effect_ok_def Let_def split_def split: option.splits)

lemma effects_handleMouseUp: "list_all effect_ok (snd (handleMouseUp sel cont v))"
  by (simp add: handleMouseUp_def effect_ok_def Let_def split: option.splits)

lemma effects_handleMouseDown: "list_all effect_ok (snd (handleMouseDown e v))"
  by (simp add: handleMouseDown_def effect_ok_def)

lemma page_inv_step:
  assumes "page_inv (page sys)"
  shows "page_inv (page (step env ev sys))"
proof (cases ev)
  case (FileChange picked)
  then show ?thesis
    using assms effects_handleFileChange [of True picked "viewer sys" "blobs sys"]
    by (simp add: split_def Let_def page_inv_deliver_all)
next
  case (DocumentLoadSuccess n)
  then show ?thesis using assms by simp
next
  case DocumentLoadError
  then show ?thesis using assms by (simp add: onDocumentLoadError_def Let_def)
next
  case (MouseUp sel cont)
  then show ?thesis
    using assms effects_handleMouseUp [of sel cont "viewer sys"]
    by (simp add: split_def Let_def page_inv_deliver_all)
next
  case (MouseDown e)
  then show ?thesis
    using assms effects_handleMouseDown [of e "viewer sys"]
    by (simp add: split_def Let_def page_inv_deliver_all)
next
  case (InputChange inp)
  then show ?thesis using assms by (simp add: page_inv_handleInputChange)
next
  case Submit
  then show ?thesis
    using page_inv_handleHighlightSubmit [OF assms]
    by (auto simp: issue_def split: prod.splits option.splits)
next
  case (Settle i out)
  then show ?thesis using assms by (simp add: page_inv_continuation)
qed

lemma page_inv_run: "page_inv (page sys) \<Longrightarrow> page_inv (page (run env evs sys))"
  by (induction evs arbitrary: sys) (simp_all add: page_inv_step)

lemma page_inv_reachable: "page_inv (page (run env evs initial_system))"
  by (rule page_inv_run) (simp add: initial_system_def page_inv_initial)

subsection \<open>The object URLs\<close>

lemma url_inv_step:
  assumes "url_inv sys"
  shows "url_inv (step env ev sys)"
proof (cases ev)
  case (FileChange picked)
  show ?thesis
  proof (cases picked)
    case None
    with FileChange assms show ?thesis by (simp only: step_FileChange_None)
  next
    case (Some f)
    have v: "fileUrl (viewer (step env ev sys)) = Some (next_url (blobs sys))"
      unfolding FileChange Some viewer_FileChange by simp
    have "blobs (step env ev sys) =
        (let (v, b, effs) = handleFileChange True (Some f) (viewer sys) (blobs sys)
         in if fileUrl v \<noteq> fileUrl (viewer sys)
            then fileUrl_cleanup (fileUrl (viewer sys)) b else b)"
      unfolding FileChange Some by (simp add: split_def Let_def blobs_deliver_all)
    with assms have "alive (blobs (step env ev sys)) = {next_url (blobs sys)}
        \<and> next_url (blobs sys) < next_url (blobs (step env ev sys))"
      by (auto simp: url_inv_def handleFileChange_def createObjectURL_def revoke_previous_def
          revokeObjectURL_def fileUrl_cleanup_def Let_def split: option.splits)
    with v show ?thesis by (simp add: url_inv_def)
  qed
next
  case (DocumentLoadSuccess n)
  then show ?thesis
    using assms by (simp add: url_inv_def onDocumentLoadSuccess_def split: option.splits)
next
  case DocumentLoadError
  then show ?thesis
    using assms by (simp add: url_inv_def onDocumentLoadError_def Let_def split: option.splits)
next
  case (MouseUp sel cont)
  then show ?thesis
    using assms
    by (simp add: url_inv_def split_def viewer_deliver_all blobs_deliver_all handleMouseUp_def
        Let_def split: option.splits)
next
  case (MouseDown e)
  then show ?thesis
    using assms
    by (simp add: url_inv_def split_def Let_def viewer_deliver_all blobs_deliver_all
        handleMouseDown_def split: option.splits)
next
  case (InputChange inp)
  then show ?thesis using assms by (simp add: url_inv_def split: option.splits)
next
  case Submit
  then show ?thesis
    using assms by (simp add: url_inv_def issue_def split: prod.splits option.splits)
next
  case (Settle i out)
  then show ?thesis using assms by (simp add: url_inv_def split: option.splits)
qed

lemma url_inv_run: "url_inv sys \<Longrightarrow> url_inv (run env evs sys)"
  by (induction evs arbitrary: sys) (simp_all add: url_inv_step)

lemma url_inv_reachable: "url_inv (run env evs initial_system)"
  by (rule url_inv_run) (simp add: url_inv_def initial_system_def initial_viewer_def)

lemma followup_question_embeds:
  "followup_question selected trimmed =
     followup_question_head @ selected @ followup_question_mid @ trimmed @ followup_question_tail"
proof -
  have nl: "lit ''\<newline>'' = [0xA]"
    by (simp add: lit_def)
  have e: "lit ''Use simple language and bold important terms with **this style**.\<newline>''
     = lit ''Use simple language and bold important terms with **this style**.'' @ [0xA]"
    by (simp add: lit_def)
  let ?xs = "followup_question_head @ selected @ followup_question_mid @ trimmed
     @ followup_question_tail"
  have arg: "followup_question selected trimmed = trim (0xA # ?xs @ [0xA])"
    unfolding followup_question_def followup_question_head_def followup_question_mid_def
      followup_question_tail_def e
    by (simp add: nl)
  have h: "\<not> is_ws (hd ?xs)"
    unfolding followup_question_head_def by (simp add: hd_lit_append is_ws_def)
  have l: "\<not> is_ws (last ?xs)"
    unfolding followup_question_tail_def by (simp add: lit_def is_ws_def)
  have n: "?xs \<noteq> []"
    unfolding followup_question_head_def by (simp add: lit_nonempty)
  show ?thesis
    unfolding arg by (rule trim_wrapped [OF newline_ws newline_ws n h l])
qed

section \<open>Events, one by one\<close>

lemma page_Settle_Overview:
  assumes "i < length (inflight sys)" "inflight sys ! i = OverviewCall"
  shows "page (step env (Settle i out) sys) =
     fetchOverviewForFile_resume (callRAG_resume out) (page sys)"
  using assms by simp

lemma page_Settle_Selection:
  assumes "j < length (inflight sys)" "inflight sys ! j = SelectionCall"
  shows "page (step env (Settle j out) sys) =
     (page sys)\<lparr>highlightMessages := [selection_reply (callRAG_resume out)]\<rparr>"
  using assms
  by (cases "callRAG_resume out")
     (simp_all add: handleSelection_resume_def selection_reply_def)

lemma page_Settle_Followup:
  assumes "j < length (inflight sys)" "inflight sys ! j = FollowupCall"
  shows "page (step env (Settle j out) sys) =
     (page sys)\<lparr>highlightMessages := highlightMessages (page sys)
        @ [followup_reply (callRAG_resume out)]\<rparr>"
  using assms
  by (cases "callRAG_resume out")
     (simp_all add: handleHighlightSubmit_resume_def followup_reply_def)

lemma step_Submit_accepted:
  assumes "selectedText (page sys) = Some sel" "sel \<noteq> []" "trim (highlightInput (page sys)) \<noteq> []"
  shows "step env Submit sys =
     sys\<lparr>page := (page sys)
            \<lparr>highlightMessages := highlightMessages (page sys)
               @ [\<lparr>role = User, content = trim (highlightInput (page sys))\<rparr>],
             highlightInput := []\<rparr>,
         inflight := inflight sys @ [FollowupCall],
         requests := requests sys @
           [callRAG_request env (lit ''/api/rag/highlight'')
              \<lparr>question = followup_question_head @ sel @ followup_question_mid
                   @ trim (highlightInput (page sys)) @ followup_question_tail,
               file_name = None\<rparr>]\<rparr>"
  using assms
  by (simp add: handleHighlightSubmit_def Let_def issue_def followup_question_embeds)

lemma step_Submit_ignored:
  assumes "trim (highlightInput (page sys)) = [] \<or> \<not> truthy (selectedText (page sys))"
  shows "step env Submit sys = sys"
  using assms by (auto simp: handleHighlightSubmit_def Let_def)

lemma step_MouseUp_selected:
  assumes "\<not> isCollapsed sel" "trim (sel_toString sel) \<noteq> []"
  shows "step env (MouseUp (Some sel) (Some c)) sys =
     sys\<lparr>viewer := (viewer sys)\<lparr>highlightRect := Some
             \<lparr>hl_top = dom_top (range_rect sel) - dom_top (client_rect c) + scrollTop c,
              hl_left = dom_left (range_rect sel) - dom_left (client_rect c) + scrollLeft c,
              hl_width = dom_width (range_rect sel),
              hl_height = dom_height (range_rect sel)\<rparr>\<rparr>,
         trace := trace sys @ [Call_onSelection (trim (sel_toString sel))],
         page := (page sys)\<lparr>selectedText := Some (trim (sel_toString sel)),
                   highlightMessages := [], highlightInput := []\<rparr>,
         inflight := inflight sys @ [SelectionCall],
         requests := requests sys @
           [callRAG_request env (lit ''/api/rag/highlight'')
              \<lparr>question = selection_question_head @ trim (sel_toString sel)
                   @ selection_question_tail,
               file_name = None\<rparr>]\<rparr>"
  using assms
  by (simp add: handleMouseUp_def Let_def issue_def handleSelection_def selection_question_embeds)

lemma step_MouseUp_ignored:
  assumes "isCollapsed sel \<or> trim (sel_toString sel) = []"
  shows "step env (MouseUp (Some sel) cont) sys = sys"
  using assms by (auto simp: handleMouseUp_def Let_def)

lemma step_MouseUp_no_selection: "step env (MouseUp None cont) sys = sys"
  by (simp add: handleMouseUp_def)

lemma step_MouseDown_container:
  "step env (MouseDown \<lparr>container_mounted = True, target_is_container = True,
       selection_available = a\<rparr>) sys =
     sys\<lparr>viewer := (viewer sys)\<lparr>highlightRect := None\<rparr>,
         trace := trace sys @ Call_onClearSelection # (if a then [RemoveAllRanges] else []),
         page := (page sys)\<lparr>selectedText := None, highlightMessages := [],
                   highlightInput := []\<rparr>\<rparr>"
  by (simp add: handleMouseDown_def handleClearSelection_def)

lemma step_DocumentLoadError:
  "step env DocumentLoadError sys = sys\<lparr>trace := trace sys @ [ConsoleError_PDFLoad]\<rparr>"
  by (simp add: onDocumentLoadError_def)

lemma fst_callRAG:
  "fst (callRAG env pth bdy net) =
     callRAG_resume (case replies net of [] \<Rightarrow> FetchRejected | r # rs \<Rightarrow> r)"
  by (simp add: callRAG_def fetch_def Let_def split: list.splits)

lemma snd_callRAG:
  "snd (callRAG env pth bdy net) =
     net\<lparr>sent := sent net @ [callRAG_request env pth bdy], replies := tl (replies net)\<rparr>"
  by (simp add: callRAG_def fetch_def Let_def split: list.splits)

section \<open>The sample runs\<close>

lemmas eval_defs =
  initial_system_def initial_page_def initial_viewer_def
  handleFileChange_def revoke_previous_def createObjectURL_def revokeObjectURL_def
  fileUrl_cleanup_def handleClearSelection_def handleFileLoaded_def fetchOverviewForFile_def
  fetchOverviewForFile_resume_def handleSelection_def handleSelection_resume_def
  handleHighlightSubmit_def handleHighlightSubmit_resume_def handleInputChange_def
  handleMouseUp_def handleMouseDown_def onDocumentLoadError_def onDocumentLoadSuccess_def
  issue_def callRAG_resume_def ok_def Let_def

lemmas sample_defs =
  policy_pdf_def summary_reply_def coinsurance_selection_def viewer_container_def
  explanation_reply_def error_500_def

lemma trim_coinsurance:
  "trim (lit ''  Coinsurance: 20% after deductible '') = lit ''Coinsurance: 20% after deductible''"
  by (simp add: trim_def lit_def is_ws_def)

lemma coinsurance_nonempty: "lit ''Coinsurance: 20% after deductible'' \<noteq> []"
  by (simp add: lit_def)

lemma trim_question: "trim (lit '' Is that a lot? '') = lit ''Is that a lot?''"
  by (simp add: trim_def lit_def is_ws_def)

lemma question_nonempty: "lit ''Is that a lot?'' \<noteq> []"
  by (simp add: lit_def)

lemma callRAG_resume_summary:
  "callRAG_resume summary_reply = Inr \<lparr>answer = lit ''This is a Summary of Benefits...'', chunks = []\<rparr>"
  by (simp add: callRAG_resume_def summary_reply_def ok_def)

lemma page_policy_loading:
  "page policy_loading =
     \<lparr>overviewText = [], overviewLoading = True, overviewError = None,
      currentFileName = Some (name policy_pdf), selectedText = None, highlightMessages = [],
      highlightInput = []\<rparr>"
  unfolding policy_loading_def run.simps page_FileChange ..

lemma inflight_policy_loading: "inflight policy_loading = [OverviewCall]"
  unfolding policy_loading_def run.simps inflight_FileChange by (simp add: initial_system_def)

lemma page_explaining:
  "page explaining =
     \<lparr>overviewText = lit ''This is a Summary of Benefits...'', overviewLoading = False,
      overviewError = None, currentFileName = Some (lit ''policy.pdf''),
      selectedText = Some (lit ''Coinsurance: 20% after deductible''), highlightMessages = [],
      highlightInput = []\<rparr>"
  by (simp add: explaining_def eval_defs policy_pdf_def summary_reply_def
      coinsurance_selection_def viewer_container_def trim_coinsurance coinsurance_nonempty)

lemma inflight_explaining: "inflight explaining = [SelectionCall]"
  by (simp add: explaining_def eval_defs policy_pdf_def summary_reply_def
      coinsurance_selection_def viewer_container_def trim_coinsurance coinsurance_nonempty)

lemma page_asking:
  "page asking =
     \<lparr>overviewText = lit ''This is a Summary of Benefits...'', overviewLoading = False,
      overviewError = None, currentFileName = Some (lit ''policy.pdf''),
      selectedText = Some (lit ''Coinsurance: 20% after deductible''),
      highlightMessages = [\<lparr>role = Assistant, content = lit ''You pay **20%** of the cost.''\<rparr>],
      highlightInput = lit '' Is that a lot? ''\<rparr>"
  by (simp add: asking_def eval_defs sample_defs trim_coinsurance coinsurance_nonempty)

lemma page_asking_early:
  "page asking_early =
     \<lparr>overviewText = [], overviewLoading = False, overviewError = None, currentFileName = None,
      selectedText = Some (lit ''Coinsurance: 20% after deductible''), highlightMessages = [],
      highlightInput = lit '' Is that a lot? ''\<rparr>"
  by (simp add: asking_early_def eval_defs sample_defs trim_coinsurance coinsurance_nonempty)

lemma inflight_asking_early: "inflight asking_early = [SelectionCall]"
  by (simp add: asking_early_def eval_defs sample_defs trim_coinsurance coinsurance_nonempty)

lemma two_uploads_state:
  "fileUrl (viewer two_uploads) = Some 1 \<and> alive (blobs two_uploads) = {1}
   \<and> url_ops (blobs two_uploads) = [Created 0, Revoked 0, Created 1, Revoked 0]"
  by (simp add: two_uploads_def eval_defs sample_defs claim_form_pdf_def)

section \<open>The claims\<close>

subsection \<open>C1: the overview flow\<close>

text \<open>
  C1 as stated, for every file-loaded event, fails where a second file is chosen before
  the first overview call has settled: the first call fails and ends the loading with the
  fallback message, then the call of the current file succeeds; its answer is stored, but
  nothing clears the error, so the overview is in error and not ready.
\<close>

theorem stale_error_survives_success:
  "currentFileName (page (run None
       [FileChange (Some policy_pdf), FileChange (Some claim_form_pdf),
        Settle 0 error_500] initial_system)) = Some (lit ''claim-form.pdf'')
   \<and> inflight (run None
       [FileChange (Some policy_pdf), FileChange (Some claim_form_pdf),
        Settle 0 error_500] initial_system) = [OverviewCall]
   \<and> callRAG_resume summary_reply =
       Inr \<lparr>answer = lit ''This is a Summary of Benefits...'', chunks = []\<rparr>
   \<and> page (run None
       [FileChange (Some policy_pdf), FileChange (Some claim_form_pdf),
        Settle 0 error_500, Settle 0 summary_reply] initial_system) =
       \<lparr>overviewText = lit ''This is a Summary of Benefits...'', overviewLoading = False,
        overviewError = Some overview_fallback,
        currentFileName = Some (lit ''claim-form.pdf''), selectedText = None,
        highlightMessages = [], highlightInput = []\<rparr>"
  by (simp add: eval_defs sample_defs claim_form_pdf_def)

text \<open>
  C1, amended. A file-loaded event resets the overview and the highlight state (selected
  text, conversation, input) and enters the loading state, with one overview call issued.
  Every overview reply clears the loading flag; a successful one stores the answer and a
  failed one the fixed fallback message, the other fields left as they are. A reply that
  settles while the overview is loading, as the reply to the event does when it is the
  next to settle, takes it from loading to ready with the answer returned, or to error
  with the fallback message.
\<close>

theorem file_loaded_overview_flow:
  assumes "sys = run env evs initial_system"
  shows
    "fst (handleFileLoaded fileName s) =
       \<lparr>overviewText = [], overviewLoading = True, overviewError = None,
        currentFileName = Some fileName, selectedText = None, highlightMessages = [],
        highlightInput = []\<rparr>
     \<and> page (step env (FileChange (Some f)) sys) = fst (handleFileLoaded (name f) (page sys))
     \<and> inflight (step env (FileChange (Some f)) sys) = inflight sys @ [OverviewCall]
     \<and> requests (step env (FileChange (Some f)) sys) =
         requests sys @ [callRAG_request env (lit ''/api/rag/overview'')
            \<lparr>question = overview_question (name f), file_name = Some (name f)\<rparr>]
     \<and> page (run env [FileChange (Some f), Settle (length (inflight sys)) out] sys) =
         (case callRAG_resume out of
            Inr r \<Rightarrow>
              \<lparr>overviewText = answer r, overviewLoading = False, overviewError = None,
               currentFileName = Some (name f), selectedText = None, highlightMessages = [],
               highlightInput = []\<rparr>
          | Inl err \<Rightarrow>
              \<lparr>overviewText = [], overviewLoading = False,
               overviewError = Some overview_fallback,
               currentFileName = Some (name f), selectedText = None, highlightMessages = [],
               highlightInput = []\<rparr>)
     \<and> (j < length (inflight sys') \<and> inflight sys' ! j = OverviewCall \<longrightarrow>
         page (step env (Settle j out) sys') =
           (case callRAG_resume out of
              Inr r \<Rightarrow> (page sys')\<lparr>overviewText := answer r, overviewLoading := False\<rparr>
            | Inl err \<Rightarrow>
                (page sys')\<lparr>overviewError := Some overview_fallback,
                   overviewLoading := False\<rparr>)
         \<and> \<not> overviewLoading (page (step env (Settle j out) sys')))
     \<and> (i < length (inflight sys) \<and> inflight sys ! i = OverviewCall
          \<and> overviewLoading (page sys) \<longrightarrow>
         (case callRAG_resume out of
            Inr r \<Rightarrow>
              page (step env (Settle i out) sys) =
                (page sys)\<lparr>overviewText := answer r, overviewLoading := False\<rparr>
              \<and> overviewError (page (step env (Settle i out) sys)) = None
          | Inl err \<Rightarrow>
              page (step env (Settle i out) sys) =
                (page sys)\<lparr>overviewError := Some overview_fallback,
                   overviewLoading := False\<rparr>))"
proof -
  have inv: "page_inv (page sys)"
    unfolding assms by (rule page_inv_reachable)
  have a: "fst (handleFileLoaded fileName s) =
       \<lparr>overviewText = [], overviewLoading = True, overviewError = None,
        currentFileName = Some fileName, selectedText = None, highlightMessages = [],
        highlightInput = []\<rparr>" for fileName s
    by (simp add: handleFileLoaded_def fetchOverviewForFile_def)
  have c: "page (step env (FileChange (Some f)) sys) = fst (handleFileLoaded (name f) (page sys))"
    unfolding a page_FileChange ..
  have "length (inflight sys) < length (inflight (step env (FileChange (Some f)) sys))"
    and "inflight (step env (FileChange (Some f)) sys) ! length (inflight sys) = OverviewCall"
    unfolding inflight_FileChange by simp_all
  then have "page (run env [FileChange (Some f), Settle (length (inflight sys)) out] sys) =
      fetchOverviewForFile_resume (callRAG_resume out) (page (step env (FileChange (Some f)) sys))"
    unfolding run.simps by (rule page_Settle_Overview)
  then have e: "page (run env [FileChange (Some f), Settle (length (inflight sys)) out] sys) =
         (case callRAG_resume out of
            Inr r \<Rightarrow>
              \<lparr>overviewText = answer r, overviewLoading = False, overviewError = None,
               currentFileName = Some (name f), selectedText = None, highlightMessages = [],
               highlightInput = []\<rparr>
          | Inl err \<Rightarrow>
              \<lparr>overviewText = [], overviewLoading = False,
               overviewError = Some overview_fallback,
               currentFileName = Some (name f), selectedText = None, highlightMessages = [],
               highlightInput = []\<rparr>)"
    unfolding page_FileChange
    by (cases "callRAG_resume out") (simp_all add: fetchOverviewForFile_resume_def)
  have g: "j < length (inflight sys') \<and> inflight sys' ! j = OverviewCall \<longrightarrow>
         page (step env (Settle j out) sys') =
           (case callRAG_resume out of
              Inr r \<Rightarrow> (page sys')\<lparr>overviewText := answer r, overviewLoading := False\<rparr>
            | Inl err \<Rightarrow>
                (page sys')\<lparr>overviewError := Some overview_fallback,
                   overviewLoading := False\<rparr>)
         \<and> \<not> overviewLoading (page (step env (Settle j out) sys'))"
    by (cases "callRAG_resume out") (simp_all add: fetchOverviewForFile_resume_def)
  have d: "i < length (inflight sys) \<and> inflight sys ! i = OverviewCall
          \<and> overviewLoading (page sys) \<longrightarrow>
         (case callRAG_resume out of
            Inr r \<Rightarrow>
              page (step env (Settle i out) sys) =
                (page sys)\<lparr>overviewText := answer r, overviewLoading := False\<rparr>
              \<and> overviewError (page (step env (Settle i out) sys)) = None
          | Inl err \<Rightarrow>
              page (step env (Settle i out) sys) =
                (page sys)\<lparr>overviewError := Some overview_fallback,
                   overviewLoading := False\<rparr>)"
    using inv
    by (cases "callRAG_resume out")
       (simp_all add: page_inv_def fetchOverviewForFile_resume_def)
  show ?thesis
    using a c d e g inflight_FileChange requests_FileChange by blast
qed

theorem file_loaded_overview_flow_witness:
  "policy_loading = run None [FileChange (Some policy_pdf)] initial_system
   \<and> 0 < length (inflight policy_loading)
   \<and> inflight policy_loading ! 0 = OverviewCall
   \<and> overviewLoading (page policy_loading)
   \<and> page (step None (Settle 0 summary_reply) policy_loading) =
       \<lparr>overviewText = lit ''This is a Summary of Benefits...'', overviewLoading = False,
        overviewError = None, currentFileName = Some (lit ''policy.pdf''), selectedText = None,
        highlightMessages = [], highlightInput = []\<rparr>
   \<and> page (step None (Settle 0 error_500) policy_loading) =
       \<lparr>overviewText = [], overviewLoading = False,
        overviewError = Some overview_fallback, currentFileName = Some (lit ''policy.pdf''),
        selectedText = None, highlightMessages = [], highlightInput = []\<rparr>"
proof -
  have pre: "0 < length (inflight policy_loading) \<and> inflight policy_loading ! 0 = OverviewCall
      \<and> overviewLoading (page policy_loading)"
    by (simp add: inflight_policy_loading page_policy_loading)
  have r: "callRAG_resume error_500 = Inl (RAGRequestFailed 500)"
    by (simp add: callRAG_resume_def error_500_def ok_def)
  from file_loaded_overview_flow [OF policy_loading_def, where i = 0 and out = summary_reply] pre
  have "case callRAG_resume summary_reply of
          Inr r \<Rightarrow>
            page (step None (Settle 0 summary_reply) policy_loading) =
              (page policy_loading)\<lparr>overviewText := answer r, overviewLoading := False\<rparr>
            \<and> overviewError (page (step None (Settle 0 summary_reply) policy_loading)) = None
        | Inl err \<Rightarrow>
            page (step None (Settle 0 summary_reply) policy_loading) =
              (page policy_loading)\<lparr>overviewError := Some overview_fallback,
                 overviewLoading := False\<rparr>"
    by blast
  then have a: "page (step None (Settle 0 summary_reply) policy_loading) =
       \<lparr>overviewText = lit ''This is a Summary of Benefits...'', overviewLoading = False,
        overviewError = None, currentFileName = Some (lit ''policy.pdf''), selectedText = None,
        highlightMessages = [], highlightInput = []\<rparr>"
    unfolding callRAG_resume_summary page_policy_loading by (simp add: policy_pdf_def)
  from file_loaded_overview_flow [OF policy_loading_def, where i = 0 and out = error_500] pre
  have "case callRAG_resume error_500 of
          Inr r \<Rightarrow>
            page (step None (Settle 0 error_500) policy_loading) =
              (page policy_loading)\<lparr>overviewText := answer r, overviewLoading := False\<rparr>
            \<and> overviewError (page (step None (Settle 0 error_500) policy_loading)) = None
        | Inl err \<Rightarrow>
            page (step None (Settle 0 error_500) policy_loading) =
              (page policy_loading)\<lparr>overviewError := Some overview_fallback,
                 overviewLoading := False\<rparr>"
    by blast
  then have b: "page (step None (Settle 0 error_500) policy_loading) =
       \<lparr>overviewText = [], overviewLoading = False,
        overviewError = Some overview_fallback, currentFileName = Some (lit ''policy.pdf''),
        selectedText = None, highlightMessages = [], highlightInput = []\<rparr>"
    unfolding r page_policy_loading by (simp add: policy_pdf_def)
  from pre policy_loading_def a b show ?thesis by blast
qed

subsection \<open>C2: follow-up questions\<close>

text \<open>
  C2. A follow-up submitted with a text that is not empty once trimmed, while a text is
  selected, appends the user's message with the trimmed text in the same event, before
  the call settles; the prompt sent to the highlight endpoint holds the selected text and
  the question; when the call settles one assistant message is appended, the answer or
  the fixed apology.
\<close>

theorem followup_submission:
  assumes "sys = run env evs initial_system"
    and "selectedText (page sys) = Some sel"
    and "trim (highlightInput (page sys)) \<noteq> []"
  shows
    "page (step env Submit sys) =
       (page sys)\<lparr>highlightMessages := highlightMessages (page sys)
           @ [\<lparr>role = User, content = trim (highlightInput (page sys))\<rparr>],
         highlightInput := []\<rparr>
     \<and> inflight (step env Submit sys) = inflight sys @ [FollowupCall]
     \<and> requests (step env Submit sys) =
         requests sys @
           [callRAG_request env (lit ''/api/rag/highlight'')
              \<lparr>question = followup_question_head @ sel @ followup_question_mid
                   @ trim (highlightInput (page sys)) @ followup_question_tail,
               file_name = None\<rparr>]
     \<and> highlightMessages (page (run env [Submit, Settle (length (inflight sys)) out] sys)) =
         highlightMessages (page sys)
         @ [\<lparr>role = User, content = trim (highlightInput (page sys))\<rparr>,
            followup_reply (callRAG_resume out)]
     \<and> (j < length (inflight sys') \<and> inflight sys' ! j = FollowupCall \<longrightarrow>
          page (step env (Settle j out) sys') =
            (page sys')\<lparr>highlightMessages := highlightMessages (page sys')
               @ [followup_reply (callRAG_resume out)]\<rparr>)"
proof -
  have "page_inv (page sys)"
    unfolding assms(1) by (rule page_inv_reachable)
  with assms(2) have "sel \<noteq> []"
    by (auto simp: page_inv_def)
  note a = step_Submit_accepted [OF assms(2) this assms(3), of env]
  have b: "j < length (inflight sys') \<and> inflight sys' ! j = FollowupCall \<longrightarrow>
          page (step env (Settle j out) sys') =
            (page sys')\<lparr>highlightMessages := highlightMessages (page sys')
               @ [followup_reply (callRAG_resume out)]\<rparr>"
    for j sys'
    using page_Settle_Followup by blast
  have c: "highlightMessages (page (run env [Submit, Settle (length (inflight sys)) out] sys)) =
         highlightMessages (page sys)
         @ [\<lparr>role = User, content = trim (highlightInput (page sys))\<rparr>,
            followup_reply (callRAG_resume out)]"
    using b [of "length (inflight sys)" "step env Submit sys"]
    unfolding run.simps a by (simp del: step.simps)
  show ?thesis
    unfolding a using b c by (simp del: step.simps run.simps)
qed

theorem followup_submission_witness:
  "asking = run None [FileChange (Some policy_pdf), Settle 0 summary_reply,
               MouseUp (Some coinsurance_selection) (Some viewer_container),
               Settle 0 explanation_reply,
               InputChange (lit '' Is that a lot? '')] initial_system
   \<and> selectedText (page asking) = Some (lit ''Coinsurance: 20% after deductible'')
   \<and> trim (highlightInput (page asking)) \<noteq> []
   \<and> highlightMessages (page (step None Submit asking)) =
       [\<lparr>role = Assistant, content = lit ''You pay **20%** of the cost.''\<rparr>,
        \<lparr>role = User, content = lit ''Is that a lot?''\<rparr>]
   \<and> inflight (step None Submit asking) = [FollowupCall]
   \<and> highlightMessages (page (step None (Settle 0 error_500) (step None Submit asking))) =
       [\<lparr>role = Assistant, content = lit ''You pay **20%** of the cost.''\<rparr>,
        \<lparr>role = User, content = lit ''Is that a lot?''\<rparr>,
        \<lparr>role = Assistant, content = followup_apology\<rparr>]"
proof -
  have s: "selectedText (page asking) = Some (lit ''Coinsurance: 20% after deductible'')"
    by (simp add: page_asking)
  have t: "trim (highlightInput (page asking)) \<noteq> []"
    by (simp add: page_asking trim_question question_nonempty)
  have i: "inflight asking = []"
    by (simp add: asking_def eval_defs sample_defs trim_coinsurance coinsurance_nonempty)
  note w = followup_submission [OF asking_def s t,
      where j = 0 and sys' = "step None Submit asking" and out = error_500]
  from w have m: "highlightMessages (page (step None Submit asking)) =
       [\<lparr>role = Assistant, content = lit ''You pay **20%** of the cost.''\<rparr>,
        \<lparr>role = User, content = lit ''Is that a lot?''\<rparr>]"
    by (simp add: page_asking trim_question del: step.simps)
  from w have f: "inflight (step None Submit asking) = [FollowupCall]"
    by (simp add: i del: step.simps)
  have r: "callRAG_resume error_500 = Inl (RAGRequestFailed 500)"
    by (simp add: callRAG_resume_def error_500_def ok_def)
  from w f have "highlightMessages (page (step None (Settle 0 error_500) (step None Submit asking))) =
      highlightMessages (page (step None Submit asking)) @ [followup_reply (callRAG_resume error_500)]"
    by (simp del: step.simps)
  then have "highlightMessages (page (step None (Settle 0 error_500) (step None Submit asking))) =
       [\<lparr>role = Assistant, content = lit ''You pay **20%** of the cost.''\<rparr>,
        \<lparr>role = User, content = lit ''Is that a lot?''\<rparr>,
        \<lparr>role = Assistant, content = followup_apology\<rparr>]"
    unfolding m r by (simp add: followup_reply_def)
  with asking_def s t m f show ?thesis by blast
qed

subsection \<open>C3: the backend client\<close>

text \<open>
  C3 as stated, that \<open>callRAG\<close> raises only when the status is not successful, fails
  where a reply with status 200 carries a body that is not JSON: \<open>resp.json()\<close> rejects
  and \<open>callRAG\<close> raises.
\<close>

theorem callRAG_raises_on_200:
  "ok \<lparr>status = 200, text_body = Some (lit ''<html>''), json_body = None\<rparr>
   \<and> fst (callRAG None (lit ''/api/rag/highlight'')
        \<lparr>question = lit ''What is coinsurance?'', file_name = None\<rparr>
        \<lparr>sent = [],
         replies = [FetchResolved
           \<lparr>status = 200, text_body = Some (lit ''<html>''), json_body = None\<rparr>]\<rparr>)
     = Inl JSONParseFailed"
  by (simp add: fst_callRAG callRAG_resume_def ok_def)

text \<open>
  C3, amended. \<open>callRAG\<close> raises exactly when the fetch is rejected, or the status is
  not successful, or the body of a successful reply does not parse; so it raises
  whenever the status is not successful, and on a successful status with a body that
  parses it returns the parsed body. It issues one request and takes one outcome,
  whatever the outcome is: there is no retry.
\<close>

theorem callRAG_outcomes:
  assumes "replies net = out # rest"
  shows
    "(isl (fst (callRAG env pth bdy net)) \<longleftrightarrow>
        out = FetchRejected
        \<or> (\<exists>resp. out = FetchResolved resp \<and> (\<not> ok resp \<or> json_body resp = None)))
     \<and> (\<forall>resp. out = FetchResolved resp \<and> \<not> ok resp \<longrightarrow>
          isl (fst (callRAG env pth bdy net)))
     \<and> (\<forall>resp r. out = FetchResolved resp \<and> ok resp \<and> json_body resp = Some r \<longrightarrow>
          fst (callRAG env pth bdy net) = Inr r)
     \<and> sent (snd (callRAG env pth bdy net)) = sent net @ [callRAG_request env pth bdy]
     \<and> replies (snd (callRAG env pth bdy net)) = rest"
proof -
  have res: "fst (callRAG env pth bdy net) = callRAG_resume out"
    by (simp add: fst_callRAG assms)
  have a: "isl (callRAG_resume out) \<longleftrightarrow>
        out = FetchRejected
        \<or> (\<exists>resp. out = FetchResolved resp \<and> (\<not> ok resp \<or> json_body resp = None))"
    by (cases out) (auto simp: callRAG_resume_def split: option.splits)
  have b: "\<forall>resp r. out = FetchResolved resp \<and> ok resp \<and> json_body resp = Some r \<longrightarrow>
          callRAG_resume out = Inr r"
    by (simp add: callRAG_resume_def)
  have c: "sent (snd (callRAG env pth bdy net)) = sent net @ [callRAG_request env pth bdy]
     \<and> replies (snd (callRAG env pth bdy net)) = rest"
    by (simp add: snd_callRAG assms)
  from a b c show ?thesis
    unfolding res by blast
qed

theorem callRAG_outcomes_witness:
  "replies \<lparr>sent = [], replies = [summary_reply, FetchRejected]\<rparr> = summary_reply # [FetchRejected]
   \<and> fst (callRAG None (lit ''/api/rag/overview'')
        \<lparr>question = overview_question (lit ''policy.pdf''), file_name = Some (lit ''policy.pdf'')\<rparr>
        \<lparr>sent = [], replies = [summary_reply, FetchRejected]\<rparr>)
     = Inr \<lparr>answer = lit ''This is a Summary of Benefits...'', chunks = []\<rparr>
   \<and> replies (snd (callRAG None (lit ''/api/rag/overview'')
        \<lparr>question = overview_question (lit ''policy.pdf''), file_name = Some (lit ''policy.pdf'')\<rparr>
        \<lparr>sent = [], replies = [summary_reply, FetchRejected]\<rparr>)) = [FetchRejected]
   \<and> replies \<lparr>sent = [], replies = [error_500]\<rparr> = error_500 # []
   \<and> isl (fst (callRAG None (lit ''/api/rag/overview'')
        \<lparr>question = overview_question (lit ''policy.pdf''), file_name = Some (lit ''policy.pdf'')\<rparr>
        \<lparr>sent = [], replies = [error_500]\<rparr>))
   \<and> replies (snd (callRAG None (lit ''/api/rag/overview'')
        \<lparr>question = overview_question (lit ''policy.pdf''), file_name = Some (lit ''policy.pdf'')\<rparr>
        \<lparr>sent = [], replies = [error_500]\<rparr>)) = []"
proof -
  have h: "replies \<lparr>sent = [], replies = [summary_reply, FetchRejected]\<rparr>
      = summary_reply # [FetchRejected]"
    by simp
  have o: "summary_reply = FetchResolved
       \<lparr>status = 200, text_body = None,
        json_body = Some \<lparr>answer = lit ''This is a Summary of Benefits...'', chunks = []\<rparr>\<rparr>
     \<and> ok \<lparr>status = 200, text_body = None,
        json_body = Some \<lparr>answer = lit ''This is a Summary of Benefits...'', chunks = []\<rparr>\<rparr>
     \<and> json_body \<lparr>status = 200, text_body = None,
        json_body = Some \<lparr>answer = lit ''This is a Summary of Benefits...'', chunks = []\<rparr>\<rparr>
       = Some \<lparr>answer = lit ''This is a Summary of Benefits...'', chunks = []\<rparr>"
    by (simp add: summary_reply_def ok_def)
  have h': "replies \<lparr>sent = [], replies = [error_500]\<rparr> = error_500 # []"
    by simp
  have o': "error_500 = FetchResolved
       \<lparr>status = 500, text_body = Some (lit ''Internal Server Error''), json_body = None\<rparr>
     \<and> \<not> ok \<lparr>status = 500, text_body = Some (lit ''Internal Server Error''),
          json_body = None\<rparr>"
    by (simp add: error_500_def ok_def)
  from callRAG_outcomes [OF h, of None "lit ''/api/rag/overview''"
      "\<lparr>question = overview_question (lit ''policy.pdf''), file_name = Some (lit ''policy.pdf'')\<rparr>"]
    callRAG_outcomes [OF h', of None "lit ''/api/rag/overview''"
      "\<lparr>question = overview_question (lit ''policy.pdf''), file_name = Some (lit ''policy.pdf'')\<rparr>"]
    h o h' o'
  show ?thesis by blast
qed

subsection \<open>C4: the first explanation\<close>

text \<open>
  C4. A selection-made event puts a prompt holding the selected text to the highlight
  endpoint. When that call settles the conversation is one assistant message: the answer
  when it succeeded, the fixed apology when it failed. With the text still selected the
  flow is then conversing: a follow-up whose trimmed text is not empty is sent.
\<close>

theorem selection_flow:
  assumes "\<not> isCollapsed sel"
    and "trim (sel_toString sel) = t"
    and "t \<noteq> []"
  shows
    "page (step env (MouseUp (Some sel) (Some c)) sys) =
       (page sys)\<lparr>selectedText := Some t, highlightMessages := [], highlightInput := []\<rparr>
     \<and> inflight (step env (MouseUp (Some sel) (Some c)) sys) = inflight sys @ [SelectionCall]
     \<and> requests (step env (MouseUp (Some sel) (Some c)) sys) =
         requests sys @
           [callRAG_request env (lit ''/api/rag/highlight'')
              \<lparr>question = selection_question_head @ t @ selection_question_tail,
               file_name = None\<rparr>]
     \<and> page (run env [MouseUp (Some sel) (Some c), Settle (length (inflight sys)) out] sys) =
         (page sys)\<lparr>selectedText := Some t,
            highlightMessages := [selection_reply (callRAG_resume out)], highlightInput := []\<rparr>
     \<and> (trim inp \<noteq> [] \<longrightarrow>
          snd (handleHighlightSubmit (handleInputChange inp
            (page (run env [MouseUp (Some sel) (Some c), Settle (length (inflight sys)) out] sys))))
          \<noteq> None)
     \<and> (j < length (inflight sys') \<and> inflight sys' ! j = SelectionCall \<longrightarrow>
          page (step env (Settle j out) sys') =
            (page sys')\<lparr>highlightMessages := [selection_reply (callRAG_resume out)]\<rparr>)
     \<and> (j < length (inflight sys') \<and> inflight sys' ! j = SelectionCall
          \<and> selectedText (page sys') = Some t \<and> trim inp \<noteq> [] \<longrightarrow>
          selectedText (page (step env (Settle j out) sys')) = Some t
          \<and> snd (handleHighlightSubmit
                 (handleInputChange inp (page (step env (Settle j out) sys')))) \<noteq> None)"
proof -
  from assms have ne: "trim (sel_toString sel) \<noteq> []"
    by simp
  note a = step_MouseUp_selected [OF assms(1) ne, of env c sys, unfolded assms(2)]
  have b: "j < length (inflight sys') \<and> inflight sys' ! j = SelectionCall \<longrightarrow>
          page (step env (Settle j out) sys') =
            (page sys')\<lparr>highlightMessages := [selection_reply (callRAG_resume out)]\<rparr>"
    for j sys'
    using page_Settle_Selection by blast
  have c: "snd (handleHighlightSubmit (handleInputChange inp
        (p\<lparr>highlightMessages := ms\<rparr>))) \<noteq> None"
    if "selectedText p = Some t" "trim inp \<noteq> []" for p ms
    using that assms(3) by (simp add: handleHighlightSubmit_def handleInputChange_def Let_def)
  have d: "j < length (inflight sys') \<and> inflight sys' ! j = SelectionCall
          \<and> selectedText (page sys') = Some t \<and> trim inp \<noteq> [] \<longrightarrow>
          selectedText (page (step env (Settle j out) sys')) = Some t
          \<and> snd (handleHighlightSubmit
                 (handleInputChange inp (page (step env (Settle j out) sys')))) \<noteq> None"
    using b c by (simp del: step.simps)
  have e: "page (run env [MouseUp (Some sel) (Some c), Settle (length (inflight sys)) out] sys) =
         (page sys)\<lparr>selectedText := Some t,
            highlightMessages := [selection_reply (callRAG_resume out)], highlightInput := []\<rparr>"
    using b [of "length (inflight sys)" "step env (MouseUp (Some sel) (Some c)) sys"]
    unfolding run.simps a by (simp del: step.simps)
  have f: "trim inp \<noteq> [] \<longrightarrow>
          snd (handleHighlightSubmit (handleInputChange inp
            (page (run env [MouseUp (Some sel) (Some c), Settle (length (inflight sys)) out] sys))))
          \<noteq> None"
    unfolding e using assms(3)
    by (simp add: handleHighlightSubmit_def handleInputChange_def Let_def)
  show ?thesis
    unfolding a using b d e f by (simp del: step.simps run.simps)
qed

theorem selection_flow_witness:
  "\<not> isCollapsed coinsurance_selection
   \<and> trim (sel_toString coinsurance_selection) = lit ''Coinsurance: 20% after deductible''
   \<and> lit ''Coinsurance: 20% after deductible'' \<noteq> []
   \<and> 0 < length (inflight explaining) \<and> inflight explaining ! 0 = SelectionCall
   \<and> selectedText (page explaining) = Some (lit ''Coinsurance: 20% after deductible'')
   \<and> trim (lit '' Is that a lot? '') \<noteq> []
   \<and> highlightMessages (page (step None (Settle 0 error_500) explaining)) =
       [\<lparr>role = Assistant, content = selection_apology\<rparr>]
   \<and> selectedText (page (step None (Settle 0 error_500) explaining)) =
       Some (lit ''Coinsurance: 20% after deductible'')
   \<and> snd (handleHighlightSubmit (handleInputChange (lit '' Is that a lot? '')
         (page (step None (Settle 0 error_500) explaining)))) \<noteq> None"
proof -
  have h1: "\<not> isCollapsed coinsurance_selection"
    by (simp add: coinsurance_selection_def)
  have h2: "trim (sel_toString coinsurance_selection) = lit ''Coinsurance: 20% after deductible''"
    by (simp add: coinsurance_selection_def trim_coinsurance)
  have h3: "0 < length (inflight explaining) \<and> inflight explaining ! 0 = SelectionCall"
    by (simp add: inflight_explaining)
  have h4: "selectedText (page explaining) = Some (lit ''Coinsurance: 20% after deductible'')"
    by (simp add: page_explaining)
  have h5: "trim (lit '' Is that a lot? '') \<noteq> []"
    by (simp add: trim_question question_nonempty)
  have r: "selection_reply (callRAG_resume error_500) =
      \<lparr>role = Assistant, content = selection_apology\<rparr>"
    by (simp add: callRAG_resume_def error_500_def ok_def selection_reply_def)
  note w = selection_flow [OF h1 h2 coinsurance_nonempty,
      where j = 0 and sys' = explaining and env = None and out = error_500
        and inp = "lit '' Is that a lot? ''"]
  from w h3 have "highlightMessages (page (step None (Settle 0 error_500) explaining)) =
       [\<lparr>role = Assistant, content = selection_apology\<rparr>]"
    by (simp add: r del: step.simps)
  with w h1 h2 h3 h4 h5 coinsurance_nonempty show ?thesis
    by blast
qed

subsection \<open>C5: empty inputs\<close>

text \<open>
  C5. A pointer release over a collapsed selection, or over one that is empty once
  trimmed, changes nothing and calls nothing; so does a follow-up submitted with a text
  that is empty once trimmed, or with no text selected.
\<close>

theorem empty_input_ignored:
  "(isCollapsed sel \<or> trim (sel_toString sel) = [] \<longrightarrow>
      handleMouseUp (Some sel) cont v = (v, [])
      \<and> step env (MouseUp (Some sel) cont) sys = sys)
   \<and> (trim (highlightInput s) = [] \<or> selectedText s = None \<longrightarrow>
      handleHighlightSubmit s = (s, None))
   \<and> (trim (highlightInput (page sys)) = [] \<or> selectedText (page sys) = None \<longrightarrow>
      step env Submit sys = sys)"
proof -
  have a: "isCollapsed sel \<or> trim (sel_toString sel) = [] \<longrightarrow>
      handleMouseUp (Some sel) cont v = (v, [])"
    by (auto simp: handleMouseUp_def Let_def)
  have b: "trim (highlightInput s) = [] \<or> selectedText s = None \<longrightarrow>
      handleHighlightSubmit s = (s, None)"
    by (auto simp: handleHighlightSubmit_def Let_def)
  have c: "trim (highlightInput (page sys)) = [] \<or> selectedText (page sys) = None \<longrightarrow>
      step env Submit sys = sys"
    using step_Submit_ignored [of sys env] by auto
  from a b c step_MouseUp_ignored [of sel env cont sys] show ?thesis
    by blast
qed

theorem empty_input_ignored_witness:
  "trim (sel_toString blank_selection) = []
   \<and> handleMouseUp (Some blank_selection) (Some viewer_container) (viewer explaining)
       = (viewer explaining, [])
   \<and> step None (MouseUp (Some blank_selection) (Some viewer_container)) explaining = explaining
   \<and> trim (highlightInput (page explaining)) = []
   \<and> handleHighlightSubmit (page explaining) = (page explaining, None)
   \<and> step None Submit explaining = explaining"
proof -
  have h1: "trim (sel_toString blank_selection) = []"
    by (simp add: blank_selection_def trim_def lit_def is_ws_def)
  have h2: "trim (highlightInput (page explaining)) = []"
    by (simp add: page_explaining trim_def)
  from empty_input_ignored
    [of blank_selection "Some viewer_container" "viewer explaining" None explaining
      "page explaining"]
    h1 h2
  show ?thesis by blast
qed

subsection \<open>C6: object URLs\<close>

text \<open>
  C6. After every sequence of events at most one object URL is alive, the one the viewer
  holds. When a file is chosen the URL held, if any, is revoked first, so that none is
  alive when the new one is created, and the new one is then the only one alive.
\<close>

theorem one_object_url_alive:
  assumes "sys = run env evs initial_system"
  shows
    "finite (alive (blobs sys)) \<and> card (alive (blobs sys)) \<le> 1
     \<and> alive (blobs sys) = set_option (fileUrl (viewer sys))
     \<and> alive (revoke_previous (fileUrl (viewer sys)) (blobs sys)) = {}
     \<and> url_ops (fst (snd (handleFileChange True (Some f) (viewer sys) (blobs sys)))) =
         url_ops (blobs sys)
         @ (case fileUrl (viewer sys) of None \<Rightarrow> [] | Some u \<Rightarrow> [Revoked u])
         @ [Created (next_url (blobs sys))]
     \<and> alive (fst (snd (handleFileChange True (Some f) (viewer sys) (blobs sys)))) =
         {next_url (blobs sys)}
     \<and> alive (blobs (step env (FileChange (Some f)) sys)) = {next_url (blobs sys)}
     \<and> fileUrl (viewer (step env (FileChange (Some f)) sys)) = Some (next_url (blobs sys))"
proof -
  have inv: "url_inv sys"
    unfolding assms by (rule url_inv_reachable)
  then have a: "alive (blobs sys) = set_option (fileUrl (viewer sys))"
    by (auto simp: url_inv_def split: option.splits)
  then have b: "finite (alive (blobs sys)) \<and> card (alive (blobs sys)) \<le> 1"
    by (cases "fileUrl (viewer sys)") simp_all
  from inv have c: "alive (revoke_previous (fileUrl (viewer sys)) (blobs sys)) = {}"
    by (auto simp: url_inv_def revoke_previous_def revokeObjectURL_def split: option.splits)
  have d: "url_ops (fst (snd (handleFileChange True (Some f) (viewer sys) (blobs sys)))) =
         url_ops (blobs sys)
         @ (case fileUrl (viewer sys) of None \<Rightarrow> [] | Some u \<Rightarrow> [Revoked u])
         @ [Created (next_url (blobs sys))]"
    by (simp add: handleFileChange_def createObjectURL_def revoke_previous_def
        revokeObjectURL_def Let_def split: option.splits)
  have e: "alive (fst (snd (handleFileChange True (Some f) (viewer sys) (blobs sys)))) =
         insert (next_url (blobs sys)) (alive (revoke_previous (fileUrl (viewer sys)) (blobs sys)))"
    by (simp add: handleFileChange_def createObjectURL_def revoke_previous_def
        revokeObjectURL_def Let_def split: option.splits)
  have "url_inv (step env (FileChange (Some f)) sys)"
    using inv by (rule url_inv_step)
  moreover have g: "fileUrl (viewer (step env (FileChange (Some f)) sys))
      = Some (next_url (blobs sys))"
    unfolding viewer_FileChange by simp
  ultimately have h: "alive (blobs (step env (FileChange (Some f)) sys)) = {next_url (blobs sys)}"
    by (simp add: url_inv_def del: step.simps)
  from a b c d e g h show ?thesis
    by simp
qed

theorem one_object_url_alive_witness:
  "two_uploads =
     run None [FileChange (Some policy_pdf), FileChange (Some claim_form_pdf)] initial_system
   \<and> alive (blobs two_uploads) = {1}
   \<and> card (alive (blobs two_uploads)) \<le> 1
   \<and> alive (revoke_previous (fileUrl (viewer two_uploads)) (blobs two_uploads)) = {}
   \<and> url_ops (blobs two_uploads) = [Created 0, Revoked 0, Created 1, Revoked 0]"
  using one_object_url_alive [OF two_uploads_def, of policy_pdf] two_uploads_state two_uploads_def
  by blast

subsection \<open>C7: choosing a file\<close>

text \<open>
  C7. When a file is chosen the viewer clears the highlight rectangle and calls the
  selection-cleared callback, then the file-loaded callback with the name of the file, so
  that the page clears the selection before it handles the new file. When no file is
  chosen the handler changes nothing and calls nothing.
\<close>

theorem new_file_clears_highlight:
  "highlightRect (fst (handleFileChange True (Some f) v b)) = None
   \<and> snd (snd (handleFileChange True (Some f) v b)) =
       [Call_onClearSelection, Call_onFileLoaded (name f)]
   \<and> handleFileChange g None v b = (v, b, [])
   \<and> highlightRect (viewer (step env (FileChange (Some f)) sys)) = None
   \<and> trace (step env (FileChange (Some f)) sys) =
       trace sys @ [Call_onClearSelection, Call_onFileLoaded (name f)]
   \<and> page (step env (FileChange (Some f)) sys) =
       fst (handleFileLoaded (name f) (handleClearSelection (page sys)))
   \<and> step env (FileChange None) sys = sys"
proof -
  have a: "highlightRect (fst (handleFileChange True (Some f) v b)) = None
     \<and> snd (snd (handleFileChange True (Some f) v b)) =
       [Call_onClearSelection, Call_onFileLoaded (name f)]
     \<and> handleFileChange g None v b = (v, b, [])"
    by (simp add: handleFileChange_def createObjectURL_def Let_def)
  have b: "highlightRect (viewer (step env (FileChange (Some f)) sys)) = None"
    unfolding viewer_FileChange by simp
  have c: "page (step env (FileChange (Some f)) sys) =
       fst (handleFileLoaded (name f) (handleClearSelection (page sys)))"
    unfolding page_FileChange by (simp add: page_handlers)
  from a b c trace_FileChange [of env f sys] step_FileChange_None [of env sys]
  show ?thesis by blast
qed

theorem new_file_clears_highlight_witness:
  "highlightRect highlighted \<noteq> None
   \<and> highlightRect (fst (handleFileChange True (Some claim_form_pdf) highlighted one_url)) = None
   \<and> snd (snd (handleFileChange True (Some claim_form_pdf) highlighted one_url)) =
       [Call_onClearSelection, Call_onFileLoaded (lit ''claim-form.pdf'')]
   \<and> handleFileChange True None highlighted one_url = (highlighted, one_url, [])"
proof -
  have "highlightRect highlighted \<noteq> None"
    by (simp add: highlighted_def)
  moreover have "name claim_form_pdf = lit ''claim-form.pdf''"
    by (simp add: claim_form_pdf_def)
  ultimately show ?thesis
    using new_file_clears_highlight [of claim_form_pdf highlighted one_url True]
    by simp
qed

subsection \<open>C8: resetting the highlight flow\<close>

text \<open>
  C8. A selection-cleared event leaves no selected text, an empty conversation and an
  empty input. A selection-made event leaves the new text selected, an empty conversation
  and an empty input, with the call for its explanation in flight. Either way what the
  conversation held is gone.
\<close>

theorem selection_reset:
  "page (step env (MouseDown \<lparr>container_mounted = True, target_is_container = True,
          selection_available = a\<rparr>) sys) = handleClearSelection (page sys)
   \<and> selectedText (handleClearSelection s) = None
   \<and> highlightMessages (handleClearSelection s) = []
   \<and> highlightInput (handleClearSelection s) = []
   \<and> (\<not> isCollapsed sel \<and> trim (sel_toString sel) \<noteq> [] \<longrightarrow>
        page (step env (MouseUp (Some sel) (Some c)) sys) =
          fst (handleSelection (trim (sel_toString sel)) (page sys))
        \<and> inflight (step env (MouseUp (Some sel) (Some c)) sys) = inflight sys @ [SelectionCall])
   \<and> selectedText (fst (handleSelection t s)) = Some t
   \<and> highlightMessages (fst (handleSelection t s)) = []
   \<and> highlightInput (fst (handleSelection t s)) = []"
proof -
  have a: "page (step env (MouseDown \<lparr>container_mounted = True, target_is_container = True,
          selection_available = a\<rparr>) sys) = handleClearSelection (page sys)"
    unfolding step_MouseDown_container by (simp add: handleClearSelection_def)
  have b: "\<not> isCollapsed sel \<and> trim (sel_toString sel) \<noteq> [] \<longrightarrow>
        page (step env (MouseUp (Some sel) (Some c)) sys) =
          fst (handleSelection (trim (sel_toString sel)) (page sys))
        \<and> inflight (step env (MouseUp (Some sel) (Some c)) sys) = inflight sys @ [SelectionCall]"
  proof (intro impI, elim conjE)
    assume h: "\<not> isCollapsed sel" "trim (sel_toString sel) \<noteq> []"
    show "page (step env (MouseUp (Some sel) (Some c)) sys) =
          fst (handleSelection (trim (sel_toString sel)) (page sys))
        \<and> inflight (step env (MouseUp (Some sel) (Some c)) sys) = inflight sys @ [SelectionCall]"
      unfolding step_MouseUp_selected [OF h] by (simp add: handleSelection_def)
  qed
  have c: "selectedText (handleClearSelection s) = None
     \<and> highlightMessages (handleClearSelection s) = []
     \<and> highlightInput (handleClearSelection s) = []
     \<and> selectedText (fst (handleSelection t s)) = Some t
     \<and> highlightMessages (fst (handleSelection t s)) = []
     \<and> highlightInput (fst (handleSelection t s)) = []"
    by (simp add: handleClearSelection_def handleSelection_def)
  from a b c show ?thesis by blast
qed

theorem selection_reset_witness:
  "highlightMessages (page asking) \<noteq> []
   \<and> \<not> isCollapsed coinsurance_selection
   \<and> trim (sel_toString coinsurance_selection) \<noteq> []
   \<and> page (step None (MouseDown container_press) asking) =
       (page asking)\<lparr>selectedText := None, highlightMessages := [], highlightInput := []\<rparr>
   \<and> page (step None (MouseUp (Some coinsurance_selection) (Some viewer_container)) asking) =
       (page asking)\<lparr>selectedText := Some (lit ''Coinsurance: 20% after deductible''),
          highlightMessages := [], highlightInput := []\<rparr>
   \<and> inflight (step None (MouseUp (Some coinsurance_selection) (Some viewer_container)) asking)
       = [SelectionCall]"
proof -
  have h0: "highlightMessages (page asking) \<noteq> []"
    by (simp add: page_asking)
  have h1: "\<not> isCollapsed coinsurance_selection"
    by (simp add: coinsurance_selection_def)
  have h2: "trim (sel_toString coinsurance_selection) = lit ''Coinsurance: 20% after deductible''"
    by (simp add: coinsurance_selection_def trim_coinsurance)
  have i: "inflight asking = []"
    by (simp add: asking_def eval_defs sample_defs trim_coinsurance coinsurance_nonempty)
  note w = selection_reset [of None True asking _ coinsurance_selection viewer_container,
      folded container_press_def]
  from w have a: "page (step None (MouseDown container_press) asking) =
       (page asking)\<lparr>selectedText := None, highlightMessages := [], highlightInput := []\<rparr>"
    by (simp add: handleClearSelection_def del: step.simps)
  from w h1 h2 coinsurance_nonempty
  have b: "page (step None (MouseUp (Some coinsurance_selection) (Some viewer_container)) asking) =
       (page asking)\<lparr>selectedText := Some (lit ''Coinsurance: 20% after deductible''),
          highlightMessages := [], highlightInput := []\<rparr>
     \<and> inflight (step None (MouseUp (Some coinsurance_selection) (Some viewer_container)) asking)
       = [SelectionCall]"
    by (simp add: handleSelection_def i del: step.simps)
  from h0 h1 h2 coinsurance_nonempty a b show ?thesis
    by simp
qed

subsection \<open>C9: the first reply overwrites the log\<close>

text \<open>
  C9. When the call for the first explanation settles, the conversation becomes the one
  assistant message, whatever it held: a follow-up message of the user appended while
  that call was in flight is no longer in the log.
\<close>

theorem initial_reply_overwrites:
  assumes "j < length (inflight sys)"
    and "inflight sys ! j = SelectionCall"
  shows
    "highlightMessages (page (step env (Settle j out) sys)) =
       [selection_reply (callRAG_resume out)]
     \<and> (selectedText (page sys) = Some sel \<and> sel \<noteq> []
          \<and> trim (highlightInput (page sys)) \<noteq> [] \<longrightarrow>
         highlightMessages (page (step env Submit sys)) =
           highlightMessages (page sys)
           @ [\<lparr>role = User, content = trim (highlightInput (page sys))\<rparr>]
         \<and> highlightMessages (page (step env (Settle j out) (step env Submit sys))) =
             [selection_reply (callRAG_resume out)]
         \<and> \<lparr>role = User, content = trim (highlightInput (page sys))\<rparr>
             \<notin> set (highlightMessages (page (step env (Settle j out) (step env Submit sys)))))"
proof -
  have a: "highlightMessages (page (step env (Settle j out) sys')) =
       [selection_reply (callRAG_resume out)]"
    if "j < length (inflight sys')" "inflight sys' ! j = SelectionCall" for sys'
    unfolding page_Settle_Selection [OF that] by simp
  have b: "highlightMessages (page (step env Submit sys)) =
           highlightMessages (page sys)
           @ [\<lparr>role = User, content = trim (highlightInput (page sys))\<rparr>]
         \<and> highlightMessages (page (step env (Settle j out) (step env Submit sys))) =
             [selection_reply (callRAG_resume out)]
         \<and> \<lparr>role = User, content = trim (highlightInput (page sys))\<rparr>
             \<notin> set (highlightMessages (page (step env (Settle j out) (step env Submit sys))))"
    if h: "selectedText (page sys) = Some sel" "sel \<noteq> []"
      "trim (highlightInput (page sys)) \<noteq> []"
  proof -
    note s = step_Submit_accepted [OF h, of env]
    have i: "inflight (step env Submit sys) = inflight sys @ [FollowupCall]"
      unfolding s by simp
    have "j < length (inflight (step env Submit sys))"
      and "inflight (step env Submit sys) ! j = SelectionCall"
      unfolding i using assms by (simp_all add: nth_append)
    then have "highlightMessages (page (step env (Settle j out) (step env Submit sys))) =
             [selection_reply (callRAG_resume out)]"
      by (rule a)
    moreover have "highlightMessages (page (step env Submit sys)) =
           highlightMessages (page sys)
           @ [\<lparr>role = User, content = trim (highlightInput (page sys))\<rparr>]"
      unfolding s by simp
    ultimately show ?thesis
      by (simp add: selection_reply_def del: step.simps)
  qed
  from a [OF assms] b show ?thesis
    by blast
qed

theorem initial_reply_overwrites_witness:
  "0 < length (inflight asking_early) \<and> inflight asking_early ! 0 = SelectionCall
   \<and> selectedText (page asking_early) = Some (lit ''Coinsurance: 20% after deductible'')
   \<and> lit ''Coinsurance: 20% after deductible'' \<noteq> []
   \<and> trim (highlightInput (page asking_early)) \<noteq> []
   \<and> highlightMessages (page (step None Submit asking_early)) =
       [\<lparr>role = User, content = lit ''Is that a lot?''\<rparr>]
   \<and> highlightMessages (page (step None (Settle 0 explanation_reply)
        (step None Submit asking_early))) =
       [\<lparr>role = Assistant, content = lit ''You pay **20%** of the cost.''\<rparr>]"
proof -
  have h1: "0 < length (inflight asking_early)" and h2: "inflight asking_early ! 0 = SelectionCall"
    by (simp_all add: inflight_asking_early)
  have h3: "selectedText (page asking_early) = Some (lit ''Coinsurance: 20% after deductible'')"
    by (simp add: page_asking_early)
  have h4: "trim (highlightInput (page asking_early)) = lit ''Is that a lot?''"
    by (simp add: page_asking_early trim_question)
  have r: "selection_reply (callRAG_resume explanation_reply) =
      \<lparr>role = Assistant, content = lit ''You pay **20%** of the cost.''\<rparr>"
    by (simp add: selection_reply_def callRAG_resume_def explanation_reply_def ok_def)
  note w = initial_reply_overwrites [OF h1 h2,
      where env = None and out = explanation_reply
        and sel = "lit ''Coinsurance: 20% after deductible''"]
  from w h3 h4 coinsurance_nonempty question_nonempty
  have "highlightMessages (page (step None Submit asking_early)) =
       [\<lparr>role = User, content = lit ''Is that a lot?''\<rparr>]
   \<and> highlightMessages (page (step None (Settle 0 explanation_reply)
        (step None Submit asking_early))) =
       [\<lparr>role = Assistant, content = lit ''You pay **20%** of the cost.''\<rparr>]"
    by (simp add: r page_asking_early del: step.simps)
  with h1 h2 h3 h4 coinsurance_nonempty question_nonempty show ?thesis
    by simp
qed

subsection \<open>C10: the overview is requested before the document is parsed\<close>

text \<open>
  C10. The file-loaded callback runs in the event in which the file is chosen, before any
  event of the document's loading, and the overview call is issued there. A load error
  that follows is written to the console and changes nothing else, so the call stays in
  flight and the overview stays loading.
\<close>

theorem overview_requested_before_parse:
  "trace (step env (FileChange (Some f)) sys) =
     trace sys @ [Call_onClearSelection, Call_onFileLoaded (name f)]
   \<and> numPages (viewer (step env (FileChange (Some f)) sys)) = numPages (viewer sys)
   \<and> requests (step env (FileChange (Some f)) sys) =
       requests sys @ [callRAG_request env (lit ''/api/rag/overview'')
          \<lparr>question = overview_question (name f), file_name = Some (name f)\<rparr>]
   \<and> inflight (step env (FileChange (Some f)) sys) = inflight sys @ [OverviewCall]
   \<and> onDocumentLoadError v = (v, [ConsoleError_PDFLoad])
   \<and> step env DocumentLoadError sys' = sys'\<lparr>trace := trace sys' @ [ConsoleError_PDFLoad]\<rparr>
   \<and> requests (run env [FileChange (Some f), DocumentLoadError] sys) =
       requests sys @ [callRAG_request env (lit ''/api/rag/overview'')
          \<lparr>question = overview_question (name f), file_name = Some (name f)\<rparr>]
   \<and> inflight (run env [FileChange (Some f), DocumentLoadError] sys) =
       inflight sys @ [OverviewCall]
   \<and> overviewLoading (page (run env [FileChange (Some f), DocumentLoadError] sys))"
proof -
  have a: "numPages (viewer (step env (FileChange (Some f)) sys)) = numPages (viewer sys)"
    unfolding viewer_FileChange by simp
  have b: "run env [FileChange (Some f), DocumentLoadError] sys =
      (step env (FileChange (Some f)) sys)
        \<lparr>trace := trace (step env (FileChange (Some f)) sys) @ [ConsoleError_PDFLoad]\<rparr>"
    unfolding run.simps step_DocumentLoadError ..
  have c: "overviewLoading (page (run env [FileChange (Some f), DocumentLoadError] sys))"
    unfolding b by (simp add: page_FileChange del: step.simps)
  have d: "requests (run env [FileChange (Some f), DocumentLoadError] sys) =
       requests (step env (FileChange (Some f)) sys)
     \<and> inflight (run env [FileChange (Some f), DocumentLoadError] sys) =
       inflight (step env (FileChange (Some f)) sys)"
    unfolding b by (simp del: step.simps)
  have e: "onDocumentLoadError v = (v, [ConsoleError_PDFLoad])"
    by (simp add: onDocumentLoadError_def)
  from a c d e trace_FileChange [of env f sys] requests_FileChange [of env f sys]
    inflight_FileChange [of env f sys] step_DocumentLoadError [of env sys']
  show ?thesis by simp
qed

theorem overview_requested_before_parse_witness:
  "requests (run None [FileChange (Some policy_pdf), DocumentLoadError] initial_system) =
     [callRAG_request None (lit ''/api/rag/overview'')
        \<lparr>question = overview_question (lit ''policy.pdf''), file_name = Some (lit ''policy.pdf'')\<rparr>]
   \<and> inflight (run None [FileChange (Some policy_pdf), DocumentLoadError] initial_system) =
       [OverviewCall]
   \<and> overviewLoading (page (run None [FileChange (Some policy_pdf), DocumentLoadError]
        initial_system))"
proof -
  have "requests initial_system = [] \<and> inflight initial_system = []
      \<and> name policy_pdf = lit ''policy.pdf''"
    by (simp add: initial_system_def policy_pdf_def)
  with overview_requested_before_parse [of None policy_pdf initial_system]
  show ?thesis by (simp del: step.simps run.simps)
qed

end
